theory Spec2Isabelle
  imports Main "HOL-Library.Multiset"
begin

section \<open>Tables\<close>

text \<open>
  \<^verbatim>\<open>compare\<close> of \<^verbatim>\<open>my_python.py\<close> works on pandas DataFrames. A frame is modelled by
  its column labels and its rows in order; a row carries its index label and one cell per
  column. A cell is a scalar or missing (\<open>None\<close> stands for NaN). Scalars are integers
  and strings; pandas' dtypes (and the upcasting of a numeric column that receives a NaN)
  are not part of the model.
\<close>

datatype scalar = IntV int | StrV string

type_synonym cells = "scalar option list"

record DataFrame =
  columns :: "string list"
  body :: "(nat \<times> cells) list"

definition rows :: "DataFrame \<Rightarrow> cells list" where
  "rows df = map snd (body df)"

definition shape :: "DataFrame \<Rightarrow> nat \<times> nat" where
  "shape df = (length (body df), length (columns df))"

definition wf_frame :: "DataFrame \<Rightarrow> bool" where
  "wf_frame df =
     (distinct (columns df) \<and> columns df \<noteq> [] \<and>
      list_all (\<lambda>r. length (snd r) = length (columns df)) (body df))"

datatype error =
    ValueError string | KeyError | IndexError | TypeError | NameError
  | AttributeError | MergeError | InvalidIndexError | IndexingError

definition and_then :: "error + 'a \<Rightarrow> ('a \<Rightarrow> error + 'b) \<Rightarrow> error + 'b" where
  "and_then m f = (case m of Inl e \<Rightarrow> Inl e | Inr v \<Rightarrow> f v)"

subsection \<open>The pandas operations that compare calls\<close>

text \<open>\<^verbatim>\<open>df.duplicated()\<close>: an empty frame (no row or no column) gives an empty mask;
  otherwise a row is marked when an earlier row has the same cells.\<close>

fun duplicated_acc :: "cells list \<Rightarrow> cells list \<Rightarrow> bool list" where
  "duplicated_acc seen [] = []"
| "duplicated_acc seen (r # rs) = (r \<in> set seen) # duplicated_acc (r # seen) rs"

definition duplicated :: "DataFrame \<Rightarrow> bool list" where
  "duplicated df = (if columns df = [] then [] else duplicated_acc [] (rows df))"

text \<open>\<^verbatim>\<open>df[mask]\<close> with a boolean mask: the marked rows, labels kept. A mask of another
  length cannot be aligned with the frame.\<close>

definition getitem_mask :: "DataFrame \<Rightarrow> bool list \<Rightarrow> error + DataFrame" where
  "getitem_mask df marks =
     (if length marks \<noteq> length (body df) then Inl IndexingError
      else Inr (df\<lparr>body := map fst (filter snd (zip (body df) marks))\<rparr>))"

text \<open>\<^verbatim>\<open>df.drop_duplicates()\<close> keeps the first occurrence of every row;
  \<^verbatim>\<open>df.drop_duplicates(keep = False)\<close> keeps the rows that occur once. Both return an
  empty frame as it is.\<close>

definition drop_duplicates :: "DataFrame \<Rightarrow> DataFrame" where
  "drop_duplicates df =
     (if columns df = [] \<or> body df = [] then df
      else df\<lparr>body := map fst (filter (\<lambda>p. \<not> snd p) (zip (body df) (duplicated df)))\<rparr>)"

definition occurrences :: "(nat \<times> cells) list \<Rightarrow> cells \<Rightarrow> nat" where
  "occurrences rs c = length (filter (\<lambda>q. snd q = c) rs)"

definition drop_duplicates_keep_False :: "DataFrame \<Rightarrow> DataFrame" where
  "drop_duplicates_keep_False df =
     (if columns df = [] \<or> body df = [] then df
      else df\<lparr>body := filter (\<lambda>r. occurrences (body df) (snd r) = 1) (body df)\<rparr>)"

text \<open>The cell of a row under a column label; missing when the frame has no such column.\<close>

definition pick :: "string list \<Rightarrow> cells \<Rightarrow> string \<Rightarrow> scalar option" where
  "pick cols cs c = (case map_of (zip cols cs) c of Some v \<Rightarrow> v | None \<Rightarrow> None)"

definition renumber :: "cells list \<Rightarrow> (nat \<times> cells) list" where
  "renumber rs = zip [0..<length rs] rs"

text \<open>The cells a table has under a label. A table carries no dtypes here: a column is
  taken to have the dtype pandas infers from its cells. A column of integers and missing
  cells is numeric (\<^verbatim>\<open>int64\<close>, or \<^verbatim>\<open>float64\<close> with \<^verbatim>\<open>NaN\<close> for the missing cells), a column
  that holds a string is kept as objects, and it is string-like when it holds no integer.\<close>

definition column_cells :: "DataFrame \<Rightarrow> string \<Rightarrow> scalar option list" where
  "column_cells df c = map (\<lambda>cs. pick (columns df) cs c) (rows df)"

definition is_int :: "scalar option \<Rightarrow> bool" where
  "is_int c = (case c of Some (IntV i) \<Rightarrow> True | _ \<Rightarrow> False)"

definition is_str :: "scalar option \<Rightarrow> bool" where
  "is_str c = (case c of Some (StrV t) \<Rightarrow> True | _ \<Rightarrow> False)"

definition numeric_column :: "scalar option list \<Rightarrow> bool" where
  "numeric_column vs = (vs \<noteq> [] \<and> \<not> list_ex is_str vs)"

definition string_column :: "scalar option list \<Rightarrow> bool" where
  "string_column vs = (list_ex is_str vs \<and> \<not> list_ex is_int vs)"

text \<open>pandas refuses to join a numeric key column with a string-like one (the check of
  \<^verbatim>\<open>_maybe_coerce_merge_keys\<close>, skipped when a frame has no row).\<close>

definition key_clash :: "DataFrame \<Rightarrow> DataFrame \<Rightarrow> string \<Rightarrow> bool" where
  "key_clash l r c =
     (numeric_column (column_cells l c) \<and> string_column (column_cells r c) \<or>
      string_column (column_cells l c) \<and> numeric_column (column_cells r c))"

text \<open>\<^verbatim>\<open>pd.merge(l, r, how = 'inner')\<close> with no key given joins on the columns the two
  frames share. It raises MergeError when there is none or when a shared label is repeated
  in a frame, and ValueError when a shared column is numeric in one frame and holds strings
  in the other. Otherwise the result has the left columns followed by the columns only the
  right frame has, one row per pair of rows that agree on every shared column, in the order
  of the left rows, under a fresh index. Missing cells match each other, as in pandas.\<close>

definition pd_merge :: "DataFrame \<Rightarrow> DataFrame \<Rightarrow> error + DataFrame" where
  "pd_merge l r =
     (let on = filter (\<lambda>c. c \<in> set (columns r)) (columns l) in
      if on = [] then Inl MergeError
      else if distinct on \<and> distinct (filter (\<lambda>c. c \<in> set on) (columns r)) then
        if list_ex (key_clash l r) on
        then Inl (ValueError ''You are trying to merge on columns of different dtypes'')
        else
          let key = (\<lambda>cols cs. map (pick cols cs) on);
              rest = (\<lambda>cs. map snd (filter (\<lambda>p. fst p \<notin> set on) (zip (columns r) cs)))
          in Inr \<lparr>columns = columns l @ filter (\<lambda>c. c \<notin> set on) (columns r),
                  body = renumber (concat (map (\<lambda>a.
                    map (\<lambda>b. a @ rest b)
                      (filter (\<lambda>b. key (columns r) b = key (columns l) a) (rows r))) (rows l)))\<rparr>
      else Inl MergeError)"

text \<open>\<^verbatim>\<open>pd.concat([a, b], ignore_index = True)\<close>: the rows of \<open>a\<close> then those of
  \<open>b\<close> under a fresh index. Frames with the same columns are stacked as they are;
  otherwise the columns are united in order of appearance, absent cells are missing, and
  pandas refuses frames whose labels repeat.\<close>

definition pd_concat :: "DataFrame \<Rightarrow> DataFrame \<Rightarrow> error + DataFrame" where
  "pd_concat a b =
     (if columns a = columns b
        then Inr \<lparr>columns = columns a, body = renumber (rows a @ rows b)\<rparr>
      else if distinct (columns a) \<and> distinct (columns b) then
        let cols = columns a @ filter (\<lambda>c. c \<notin> set (columns a)) (columns b);
            fit = (\<lambda>d. map (\<lambda>cs. map (pick (columns d) cs) cols) (rows d))
        in Inr \<lparr>columns = cols, body = renumber (fit a @ fit b)\<rparr>
      else Inl InvalidIndexError)"

subsection \<open>Printing\<close>

fun str_nat :: "nat \<Rightarrow> string" where
  "str_nat n =
     (if n < 10 then [''0123456789'' ! n]
      else str_nat (n div 10) @ [''0123456789'' ! (n mod 10)])"

declare str_nat.simps [simp del]

definition str_int :: "int \<Rightarrow> string" where
  "str_int i = (if i < 0 then ''-'' @ str_nat (nat (- i)) else str_nat (nat i))"

definition py_str :: "scalar \<Rightarrow> string" where
  "py_str v = (case v of IntV i \<Rightarrow> str_int i | StrV s \<Rightarrow> s)"

section \<open>The call frame of compare\<close>

text \<open>Python values as far as compare receives them: its arguments are not typed.\<close>

datatype pyobj =
    PFrame DataFrame | PList "pyobj list" | PBool bool | PStr string | PInt int | PNone

datatype entry = Table DataFrame | Verdict bool

type_synonym pydict = "string \<rightharpoonup> entry"

text \<open>The state a call works on: the two tables the caller passed, the dictionary
  \<^verbatim>\<open>dict_temp\<close> it builds and returns, and the lines it has printed.\<close>

record frame_state =
  tab_x :: DataFrame
  tab_y :: DataFrame
  dict_temp :: pydict
  stdout :: "string list"

definition setitem :: "string \<Rightarrow> entry \<Rightarrow> frame_state \<Rightarrow> frame_state" where
  "setitem k v s = s\<lparr>dict_temp := (dict_temp s)(k \<mapsto> v)\<rparr>"

definition print :: "string \<Rightarrow> frame_state \<Rightarrow> frame_state" where
  "print line s = s\<lparr>stdout := stdout s @ [line]\<rparr>"

definition getitem :: "pydict \<Rightarrow> string \<Rightarrow> error + entry" where
  "getitem d k = (case d k of None \<Rightarrow> Inl KeyError | Some v \<Rightarrow> Inr v)"

text \<open>An entry used as a frame (\<^verbatim>\<open>.shape\<close>, \<^verbatim>\<open>.copy()\<close>, an operand of
  \<^verbatim>\<open>pd.concat\<close>): a boolean has none of these.\<close>

definition as_frame :: "entry \<Rightarrow> error + DataFrame" where
  "as_frame e = (case e of Table df \<Rightarrow> Inr df | Verdict b \<Rightarrow> Inl AttributeError)"

definition item :: "pyobj list \<Rightarrow> nat \<Rightarrow> error + pyobj" where
  "item xs i = (if i < length xs then Inr (xs ! i) else Inl IndexError)"

text \<open>An operand of \<^verbatim>\<open>+\<close> next to a string literal: only a string can be concatenated
  (and used as a key afterwards).\<close>

definition as_str :: "pyobj \<Rightarrow> error + string" where
  "as_str v = (case v of PStr s \<Rightarrow> Inr s | _ \<Rightarrow> Inl TypeError)"

text \<open>\<^verbatim>\<open>names[i] + '_not_' + names[j]\<close> and \<^verbatim>\<open>names[i] + '_dups'\<close>.\<close>

definition not_key :: "pyobj list \<Rightarrow> nat \<Rightarrow> nat \<Rightarrow> error + string" where
  "not_key names i j =
     and_then (item names i) (\<lambda>a. and_then (as_str a) (\<lambda>s.
     and_then (item names j) (\<lambda>b. and_then (as_str b) (\<lambda>t. Inr (s @ ''_not_'' @ t)))))"

definition dups_key :: "pyobj list \<Rightarrow> nat \<Rightarrow> error + string" where
  "dups_key names i = and_then (item names i) (\<lambda>a. and_then (as_str a) (\<lambda>s. Inr (s @ ''_dups'')))"

text \<open>\<^verbatim>\<open>try: ... except: print(msg)\<close>. The statements run in order; the first one that
  raises ends the block and the message is printed. What earlier statements of the block
  stored stays: nothing is rolled back.\<close>

fun try_except ::
  "(frame_state \<Rightarrow> error + frame_state) list \<Rightarrow> string \<Rightarrow> frame_state \<Rightarrow> frame_state" where
  "try_except [] msg s = s"
| "try_except (stmt # rest) msg s =
     (case stmt s of Inl e \<Rightarrow> print msg s | Inr s' \<Rightarrow> try_except rest msg s')"

subsection \<open>Lines 147 to 160: the argument checks\<close>

definition check_arguments ::
  "pyobj \<Rightarrow> pyobj \<Rightarrow> pyobj \<Rightarrow> pyobj \<Rightarrow> pyobj \<Rightarrow> pyobj \<Rightarrow>
   error + (DataFrame \<times> DataFrame \<times> pyobj list \<times> bool \<times> bool \<times> bool)" where
  "check_arguments x y names dups same comment =
     (case x of
        PFrame xf \<Rightarrow>
          (case y of
             PFrame yf \<Rightarrow>
               (case names of
                  PList ns \<Rightarrow>
                    (case dups of
                       PBool d \<Rightarrow>
                         (case same of
                            PBool sm \<Rightarrow>
                              (case comment of
                                 PBool c \<Rightarrow> Inr (xf, yf, ns, d, sm, c)
                               | _ \<Rightarrow> Inl (ValueError ''Please input comment as a bool''))
                          | _ \<Rightarrow> Inl (ValueError ''Please input same as a bool''))
                     | _ \<Rightarrow> Inl (ValueError ''Please input dups as a bool''))
                | _ \<Rightarrow> Inl (ValueError ''Please input names as a list''))
           | _ \<Rightarrow> Inl (ValueError ''Please input y as a pandas.DataFrame''))
      | _ \<Rightarrow> Inl (ValueError ''Please input x as a pandas.DataFrame''))"

subsection \<open>Lines 164 to 172: same values and outliers\<close>

definition same_values_stmt :: "frame_state \<Rightarrow> error + frame_state" where
  "same_values_stmt s =
     and_then (pd_merge (drop_duplicates (tab_x s)) (drop_duplicates (tab_y s)))
       (\<lambda>m. Inr (setitem ''same_values'' (Table m) s))"

text \<open>The right-hand side is evaluated before the key of the assignment.\<close>

definition outliers :: "DataFrame \<Rightarrow> pydict \<Rightarrow> error + DataFrame" where
  "outliers t d =
     and_then (getitem d ''same_values'') (\<lambda>e. and_then (as_frame e) (\<lambda>sv.
     and_then (pd_concat t sv) (\<lambda>c. Inr (drop_duplicates_keep_False c))))"

definition x_not_y_stmt :: "pyobj list \<Rightarrow> frame_state \<Rightarrow> error + frame_state" where
  "x_not_y_stmt names s =
     and_then (outliers (tab_x s) (dict_temp s)) (\<lambda>r.
     and_then (not_key names 0 1) (\<lambda>k. Inr (setitem k (Table r) s)))"

definition y_not_x_stmt :: "pyobj list \<Rightarrow> frame_state \<Rightarrow> error + frame_state" where
  "y_not_x_stmt names s =
     and_then (outliers (tab_y s) (dict_temp s)) (\<lambda>r.
     and_then (not_key names 1 0) (\<lambda>k. Inr (setitem k (Table r) s)))"

subsection \<open>Lines 174 to 187: duplicates and the verdict\<close>

definition dups_stmt ::
  "(frame_state \<Rightarrow> DataFrame) \<Rightarrow> pyobj list \<Rightarrow> nat \<Rightarrow> frame_state \<Rightarrow> error + frame_state" where
  "dups_stmt tab names i s =
     and_then (getitem_mask (tab s) (duplicated (tab s))) (\<lambda>r.
     and_then (dups_key names i) (\<lambda>k. Inr (setitem k (Table r) s)))"

definition Same_stmt :: "frame_state \<Rightarrow> error + frame_state" where
  "Same_stmt s =
     and_then (getitem (dict_temp s) ''same_values'') (\<lambda>e. and_then (as_frame e) (\<lambda>sv.
       Inr (setitem ''Same''
             (Verdict (shape (tab_x s) = shape (tab_y s) \<and> shape (tab_x s) = shape sv)) s)))"

subsection \<open>Lines 189 to 205: the highlight\<close>

text \<open>The names a function body reads without assigning them are looked up among the
  module's globals when the line runs. \<open>glob\<close> gives the module-level names that are
  bound to a dictionary of tables. \<^verbatim>\<open>my_python.py\<close> binds imports and functions only.\<close>

type_synonym globals = "string \<rightharpoonup> pydict"

definition my_python_globals :: globals where
  "my_python_globals = Map.empty"

definition load_global :: "globals \<Rightarrow> string \<Rightarrow> error + pydict" where
  "load_global glob name = (case glob name of None \<Rightarrow> Inl NameError | Some d \<Rightarrow> Inr d)"

text \<open>\<^verbatim>\<open>d.isin(v)\<close> for a frame \<open>v\<close>: a cell is marked when \<open>v\<close> has the same value
  under the same index label and column label; a missing cell is never marked. pandas
  refuses a \<open>v\<close> whose labels repeat.\<close>

definition isin :: "DataFrame \<Rightarrow> DataFrame \<Rightarrow> error + bool list list" where
  "isin d v =
     (if distinct (columns v) \<and> distinct (map fst (body v))
      then Inr (map (\<lambda>r. map (\<lambda>p.
                  (case map_of (body v) (fst r) of
                     None \<Rightarrow> False
                   | Some cs \<Rightarrow> snd p \<noteq> None \<and> pick (columns v) cs (fst p) = snd p))
                  (zip (columns d) (snd r))) (body d))
      else Inl (ValueError ''cannot compute isin with a duplicate axis.''))"

text \<open>\<^verbatim>\<open>d.copy()[~d.copy().isin(v.copy())].fillna('-')\<close>: marked cells become missing, and
  every missing cell is filled with the sentinel.\<close>

definition unmatched :: "DataFrame \<Rightarrow> DataFrame \<Rightarrow> error + DataFrame" where
  "unmatched d v =
     and_then (isin d v) (\<lambda>hits.
       Inr (d\<lparr>body := map (\<lambda>p. (fst (fst p),
              map (\<lambda>q. if snd q then Some (StrV ''-'')
                       else (case fst q of None \<Rightarrow> Some (StrV ''-'') | Some a \<Rightarrow> Some a))
                (zip (snd (fst p)) (snd p)))) (zip (body d) hits)\<rparr>))"

text \<open>\<^verbatim>\<open>astype(str)\<close> on a cell.\<close>

definition render :: "scalar option \<Rightarrow> string" where
  "render c = (case c of None \<Rightarrow> ''nan'' | Some v \<Rightarrow> py_str v)"

text \<open>\<^verbatim>\<open>df_t[i] = df_t[i].astype(str) + '/' + df_k[i].astype(str)\<close>: the two columns are
  aligned on the index label; a label \<open>df_k\<close> lacks leaves the cell missing.\<close>

definition join_column :: "string \<Rightarrow> DataFrame \<Rightarrow> DataFrame \<Rightarrow> DataFrame" where
  "join_column i t k =
     t\<lparr>body := map (\<lambda>r. (fst r,
          map (\<lambda>p. if fst p = i
                   then (case map_of (body k) (fst r) of
                           None \<Rightarrow> None
                         | Some kc \<Rightarrow>
                             Some (StrV (render (snd p) @ ''/'' @ render (pick (columns k) kc i))))
                   else snd p)
            (zip (columns t) (snd r)))) (body t)\<rparr>"

fun highlight_loop :: "string list \<Rightarrow> DataFrame \<Rightarrow> DataFrame \<Rightarrow> error + DataFrame" where
  "highlight_loop [] t k = Inr t"
| "highlight_loop (i # cols) t k =
     (if i \<notin> set (columns k) then Inl KeyError
      else highlight_loop cols (join_column i t k) k)"

text \<open>\<^verbatim>\<open>df.replace('-/-', '-')\<close>.\<close>

definition replace_pair :: "DataFrame \<Rightarrow> DataFrame" where
  "replace_pair df =
     df\<lparr>body := map (\<lambda>r. (fst r,
           map (\<lambda>c. if c = Some (StrV ''-/-'') then Some (StrV ''-'') else c) (snd r))) (body df)\<rparr>"

definition highlight_stmt :: "globals \<Rightarrow> frame_state \<Rightarrow> error + frame_state" where
  "highlight_stmt glob s =
     and_then (load_global glob ''dict_comp'') (\<lambda>dict_comp.
     and_then (getitem dict_comp ''df1_not_df2'') (\<lambda>e1. and_then (as_frame e1) (\<lambda>d1.
     and_then (getitem dict_comp ''df2_not_df1'') (\<lambda>e2. and_then (as_frame e2) (\<lambda>d2.
     and_then (unmatched d1 d2) (\<lambda>df_t.
     and_then (unmatched d2 d1) (\<lambda>df_k.
     and_then (highlight_loop (columns df_t) df_t df_k) (\<lambda>h.
       Inr (setitem ''highlight'' (Table (replace_pair h)) s)))))))))"

subsection \<open>Lines 207 to 222: the commentary\<close>

definition count_of :: "pydict \<Rightarrow> string \<Rightarrow> error + string" where
  "count_of d k =
     and_then (getitem d k) (\<lambda>e. and_then (as_frame e) (\<lambda>t. Inr (str_nat (fst (shape t)))))"

definition print_same_values :: "frame_state \<Rightarrow> error + frame_state" where
  "print_same_values s =
     and_then (count_of (dict_temp s) ''same_values'') (\<lambda>n.
       Inr (print (''same values: '' @ n) s))"

definition print_outliers ::
  "pyobj list \<Rightarrow> nat \<Rightarrow> nat \<Rightarrow> frame_state \<Rightarrow> error + frame_state" where
  "print_outliers names i j s =
     and_then (item names i) (\<lambda>a.
     and_then (not_key names i j) (\<lambda>k.
     and_then (count_of (dict_temp s) k) (\<lambda>n.
     and_then (as_str a) (\<lambda>nm.
       Inr (print (''outliers in '' @ nm @ '': '' @ n) s)))))"

definition print_duplicates :: "pyobj list \<Rightarrow> nat \<Rightarrow> frame_state \<Rightarrow> error + frame_state" where
  "print_duplicates names i s =
     and_then (item names i) (\<lambda>a. and_then (as_str a) (\<lambda>nm.
     and_then (dups_key names i) (\<lambda>k.
     and_then (count_of (dict_temp s) k) (\<lambda>n.
       Inr (print (''duplicates in '' @ nm @ '': '' @ n) s)))))"

definition print_verdict :: "frame_state \<Rightarrow> error + frame_state" where
  "print_verdict s =
     and_then (getitem (dict_temp s) ''Same'') (\<lambda>e.
       (case e of
          Verdict b \<Rightarrow>
            Inr (print (''DataFrames are '' @ (if b then ''the same'' else ''not the same'')) s)
        | Table t \<Rightarrow> Inl (ValueError ''The truth value of a DataFrame is ambiguous.'')))"

definition commentary :: "pyobj list \<Rightarrow> bool \<Rightarrow> bool \<Rightarrow> bool \<Rightarrow> frame_state \<Rightarrow> frame_state" where
  "commentary names dups same comment s =
     try_except
       (if comment
        then [print_same_values, print_outliers names 0 1, print_outliers names 1 0]
             @ (if dups then [print_duplicates names 0, print_duplicates names 1] else [])
             @ (if same then [print_verdict] else [])
        else [])
       ''Unable to print commentary'' s"

subsection \<open>compare\<close>

text \<open>\<^verbatim>\<open>if highlight == True:\<close> stands outside every \<^verbatim>\<open>try\<close>, and \<open>highlight\<close> is
  whatever the caller passed: the integer 1 equals \<open>True\<close>, and the comparison of a frame has
  no truth value.\<close>

definition equals_True :: "pyobj \<Rightarrow> error + bool" where
  "equals_True v =
     (case v of
        PBool b \<Rightarrow> Inr b
      | PInt i \<Rightarrow> Inr (i = 1)
      | PFrame df \<Rightarrow> Inl (ValueError ''The truth value of a DataFrame is ambiguous.'')
      | _ \<Rightarrow> Inr False)"

text \<open>The five guarded blocks, in the order of the source.\<close>

definition same_values_block :: "frame_state \<Rightarrow> frame_state" where
  "same_values_block s = try_except [same_values_stmt] ''Unable to identify same values'' s"

definition outliers_block :: "pyobj list \<Rightarrow> frame_state \<Rightarrow> frame_state" where
  "outliers_block names s =
     try_except [x_not_y_stmt names, y_not_x_stmt names] ''Unable to find outliers'' s"

definition dups_block :: "pyobj list \<Rightarrow> bool \<Rightarrow> frame_state \<Rightarrow> frame_state" where
  "dups_block names dups s =
     (if dups
      then try_except [dups_stmt tab_x names 0, dups_stmt tab_y names 1]
             ''Unable to find duplicates'' s
      else s)"

definition Same_block :: "bool \<Rightarrow> frame_state \<Rightarrow> frame_state" where
  "Same_block same s =
     (if same
      then try_except [Same_stmt] ''Unable to determine whether the Dataframes are the same'' s
      else s)"

definition highlight_block :: "globals \<Rightarrow> bool \<Rightarrow> frame_state \<Rightarrow> frame_state" where
  "highlight_block glob highlight s =
     (if highlight
      then try_except [highlight_stmt glob] ''Unable to calculate highlight'' s
      else s)"

definition entry_state :: "DataFrame \<Rightarrow> DataFrame \<Rightarrow> frame_state" where
  "entry_state xf yf = \<lparr>tab_x = xf, tab_y = yf, dict_temp = Map.empty, stdout = []\<rparr>"

text \<open>The function returns \<^verbatim>\<open>dict_temp\<close>; the model returns the whole final state, of
  which \<open>dict_temp\<close> is the returned dictionary and \<open>stdout\<close> what was printed.\<close>

definition compare ::
  "globals \<Rightarrow> pyobj \<Rightarrow> pyobj \<Rightarrow> pyobj \<Rightarrow> pyobj \<Rightarrow> pyobj \<Rightarrow> pyobj \<Rightarrow> pyobj \<Rightarrow>
   error + frame_state" where
  "compare glob x y names dups same comment highlight =
     and_then (check_arguments x y names dups same comment) (\<lambda>(xf, yf, ns, d, sm, c).
       let s4 = Same_block sm (dups_block ns d (outliers_block ns
                  (same_values_block (entry_state xf yf)))) in
       and_then (equals_True highlight) (\<lambda>h.
         Inr (commentary ns d sm c (highlight_block glob h s4))))"

section \<open>Tables used in the examples\<close>

definition names_xy :: pyobj where
  "names_xy = PList [PStr ''x'', PStr ''y'']"

definition table_ab :: DataFrame where
  "table_ab = \<lparr>columns = [''id'', ''v''],
     body = [(0, [Some (IntV 1), Some (StrV ''a'')]), (1, [Some (IntV 2), Some (StrV ''b'')])]\<rparr>"

definition table_ac :: DataFrame where
  "table_ac = \<lparr>columns = [''id'', ''v''],
     body = [(0, [Some (IntV 1), Some (StrV ''a'')]), (1, [Some (IntV 2), Some (StrV ''c'')])]\<rparr>"

definition table_11 :: DataFrame where
  "table_11 = \<lparr>columns = [''x''], body = [(0, [Some (IntV 1)]), (1, [Some (IntV 1)])]\<rparr>"

definition table_1 :: DataFrame where
  "table_1 = \<lparr>columns = [''x''], body = [(0, [Some (IntV 1)])]\<rparr>"

definition table_2 :: DataFrame where
  "table_2 = \<lparr>columns = [''x''], body = [(0, [Some (IntV 2)])]\<rparr>"

definition table_ba :: DataFrame where
  "table_ba = \<lparr>columns = [''id'', ''v''],
     body = [(0, [Some (IntV 2), Some (StrV ''b'')]), (1, [Some (IntV 1), Some (StrV ''a'')])]\<rparr>"

definition table_id_v :: DataFrame where
  "table_id_v = \<lparr>columns = [''id'', ''v''], body = [(0, [Some (IntV 1), Some (StrV ''a'')])]\<rparr>"

definition table_id_w :: DataFrame where
  "table_id_w = \<lparr>columns = [''id'', ''w''], body = [(0, [Some (IntV 1), Some (StrV ''b'')])]\<rparr>"

definition table_k_w :: DataFrame where
  "table_k_w = \<lparr>columns = [''k'', ''w''], body = [(0, [Some (IntV 1), Some (StrV ''b'')])]\<rparr>"

definition table_sid_w :: DataFrame where
  "table_sid_w =
     \<lparr>columns = [''id'', ''w''], body = [(0, [Some (StrV ''1''), Some (StrV ''b'')])]\<rparr>"

section \<open>Notions used in the proofs\<close>

text \<open>The rows \<open>drop_duplicates\<close> keeps, given the cells seen so far.\<close>

definition kept :: "cells list \<Rightarrow> (nat \<times> cells) list \<Rightarrow> (nat \<times> cells) list" where
  "kept seen b = map fst (filter (\<lambda>p. \<not> snd p) (zip b (duplicated_acc seen (map snd b))))"

text \<open>The columns of the first table that the second has too, which \<^verbatim>\<open>pd.merge\<close>
  joins on.\<close>

definition shared :: "DataFrame \<Rightarrow> DataFrame \<Rightarrow> string list" where
  "shared l r = filter (\<lambda>c. c \<in> set (columns r)) (columns l)"

text \<open>What a stretch of the body may change: the two tables stay, entries are stored only
  under the keys of \<open>K\<close> and never removed, and the lines printed are lines of \<open>L\<close>.\<close>

definition frame_on :: "string set \<Rightarrow> string set \<Rightarrow> frame_state \<Rightarrow> frame_state \<Rightarrow> bool" where
  "frame_on K L s s' =
     (tab_x s' = tab_x s \<and> tab_y s' = tab_y s \<and>
      (\<forall>k. k \<notin> K \<longrightarrow> dict_temp s' k = dict_temp s k) \<and>
      (\<forall>k. dict_temp s k \<noteq> None \<longrightarrow> dict_temp s' k \<noteq> None) \<and>
      (\<exists>l. stdout s' = stdout s @ l \<and> set l \<subseteq> L))"

text \<open>The keys the outliers and the duplicates are stored under, as far as \<open>names\<close>
  gives them.\<close>

definition not_keys :: "pyobj list \<Rightarrow> string set" where
  "not_keys names = {k. not_key names 0 1 = Inr k \<or> not_key names 1 0 = Inr k}"

definition dups_keys :: "pyobj list \<Rightarrow> string set" where
  "dups_keys names = {k. dups_key names 0 = Inr k \<or> dups_key names 1 = Inr k}"

text \<open>The messages of the five blocks that store entries.\<close>

definition block_messages :: "string set" where
  "block_messages =
     {''Unable to identify same values'', ''Unable to find outliers'',
      ''Unable to find duplicates'',
      ''Unable to determine whether the Dataframes are the same'',
      ''Unable to calculate highlight''}"

section \<open>Frames of the statements\<close>

lemma frame_on_refl: "frame_on K L s s"
  by (simp add: frame_on_def)

lemma frame_on_trans:
  assumes "frame_on K L s s'" and "frame_on K' L' s' s''"
  shows "frame_on (K \<union> K') (L \<union> L') s s''"
proof -
  from assms obtain l l' where l: "stdout s' = stdout s @ l" "set l \<subseteq> L"
    and l': "stdout s'' = stdout s' @ l'" "set l' \<subseteq> L'"
    by (auto simp: frame_on_def)
  then have "stdout s'' = stdout s @ (l @ l') \<and> set (l @ l') \<subseteq> L \<union> L'" by auto
  then have "\<exists>m. stdout s'' = stdout s @ m \<and> set m \<subseteq> L \<union> L'" by blast
  with assms show ?thesis by (simp add: frame_on_def)
qed

lemma frame_on_mono:
  "frame_on K L s s' \<Longrightarrow> K \<subseteq> K' \<Longrightarrow> L \<subseteq> L' \<Longrightarrow> frame_on K' L' s s'"
  unfolding frame_on_def by (meson in_mono subset_trans)

lemma frame_on_print: "m \<in> L \<Longrightarrow> frame_on K L s (print m s)"
  by (simp add: frame_on_def print_def)

lemma frame_on_setitem: "k \<in> K \<Longrightarrow> frame_on K L s (setitem k v s)"
  by (simp add: frame_on_def setitem_def)

lemma try_except_frame:
  assumes "\<And>f s s'. f \<in> set stmts \<Longrightarrow> f s = Inr s' \<Longrightarrow> frame_on K L s s'" and "msg \<in> L"
  shows "frame_on K L s (try_except stmts msg s)"
  using assms(1)
proof (induction stmts arbitrary: s)
  case Nil
  show ?case by (simp add: frame_on_refl)
next
  case (Cons f fs)
  show ?case
  proof (cases "f s")
    case (Inl e)
    then show ?thesis by (simp add: frame_on_print assms(2))
  next
    case (Inr s')
    have a: "frame_on K L s s'" using Cons.prems [of f s s'] Inr by simp
    have b: "frame_on K L s' (try_except fs msg s')"
    proof (rule Cons.IH)
      fix g t t' assume "g \<in> set fs" "g t = Inr t'"
      then show "frame_on K L t t'" using Cons.prems [of g t t'] by simp
    qed
    from frame_on_trans [OF a b] show ?thesis using Inr by simp
  qed
qed

lemma and_then_Inr: "and_then m f = Inr r \<longleftrightarrow> (\<exists>v. m = Inr v \<and> f v = Inr r)"
  by (cases m) (simp_all add: and_then_def)

lemma x_not_y_stmt_Inr:
  "x_not_y_stmt names s = Inr s' \<Longrightarrow> \<exists>k v. not_key names 0 1 = Inr k \<and> s' = setitem k v s"
  by (auto simp: x_not_y_stmt_def and_then_Inr)

lemma y_not_x_stmt_Inr:
  "y_not_x_stmt names s = Inr s' \<Longrightarrow> \<exists>k v. not_key names 1 0 = Inr k \<and> s' = setitem k v s"
  by (auto simp: y_not_x_stmt_def and_then_Inr)

lemma dups_stmt_Inr:
  "dups_stmt tab names i s = Inr s' \<Longrightarrow> \<exists>k v. dups_key names i = Inr k \<and> s' = setitem k v s"
  by (auto simp: dups_stmt_def and_then_Inr)

lemma Same_stmt_Inr:
  "Same_stmt s = Inr s' \<Longrightarrow> \<exists>v. s' = setitem ''Same'' v s"
  by (auto simp: Same_stmt_def and_then_Inr)

lemma highlight_stmt_Inr:
  "highlight_stmt glob s = Inr s' \<Longrightarrow> \<exists>v. s' = setitem ''highlight'' v s"
  by (auto simp: highlight_stmt_def and_then_Inr)

lemma same_values_stmt_Inr:
  "same_values_stmt s = Inr s' \<Longrightarrow> \<exists>v. s' = setitem ''same_values'' v s"
  by (auto simp: same_values_stmt_def and_then_Inr)


subsection \<open>The pandas operations\<close>

lemma kept_Nil [simp]: "kept seen [] = []"
  by (simp add: kept_def)

lemma kept_Cons [simp]:
  "kept seen (r # b) =
     (if snd r \<in> set seen then kept (snd r # seen) b else r # kept (snd r # seen) b)"
  by (simp add: kept_def)

lemma kept_set: "snd ` set (kept seen b) = snd ` set b - set seen"
  by (induction b arbitrary: seen) auto

lemma kept_subset: "set (kept seen b) \<subseteq> set b"
  by (induction b arbitrary: seen) auto

lemma kept_distinct: "distinct (map snd (kept seen b))"
proof (induction b arbitrary: seen)
  case Nil
  show ?case by simp
next
  case (Cons r b)
  have "snd r \<notin> snd ` set (kept (snd r # seen) b)"
    unfolding kept_set by simp
  with Cons.IH [of "snd r # seen"] Cons.IH [of seen] show ?case by simp
qed

lemma kept_all:
  "distinct (map snd b) \<Longrightarrow> snd ` set b \<inter> set seen = {} \<Longrightarrow> kept seen b = b"
proof (induction b arbitrary: seen)
  case Nil
  show ?case by simp
next
  case (Cons r b)
  have "snd ` set b \<inter> set (snd r # seen) = {}" using Cons.prems by auto
  with Cons.IH [of "snd r # seen"] Cons.prems show ?case by auto
qed

lemma drop_duplicates_kept:
  "drop_duplicates df = (if columns df = [] then df else df\<lparr>body := kept [] (body df)\<rparr>)"
  by (cases "body df = []") (simp_all add: drop_duplicates_def duplicated_def rows_def kept_def)

lemma columns_drop_duplicates [simp]: "columns (drop_duplicates df) = columns df"
  by (simp add: drop_duplicates_def)

lemma set_rows_drop_duplicates:
  "columns df \<noteq> [] \<Longrightarrow> set (rows (drop_duplicates df)) = set (rows df)"
  using kept_set [of "[]" "body df"]
  by (simp add: drop_duplicates_kept rows_def)

lemma distinct_rows_drop_duplicates:
  "columns df \<noteq> [] \<Longrightarrow> distinct (rows (drop_duplicates df))"
  using kept_distinct [of "[]" "body df"]
  by (simp add: drop_duplicates_kept rows_def)

lemma drop_duplicates_distinct:
  "columns df \<noteq> [] \<Longrightarrow> distinct (rows df) \<Longrightarrow> drop_duplicates df = df"
  using kept_all [of "body df" "[]"]
  by (simp add: drop_duplicates_kept rows_def)

lemma wf_drop_duplicates: "wf_frame df \<Longrightarrow> wf_frame (drop_duplicates df)"
  using kept_subset [of "[]" "body df"]
  by (auto simp: wf_frame_def drop_duplicates_kept list_all_iff)

lemma pick_all:
  assumes "distinct cols" and "length cs = length cols"
  shows "map (pick cols cs) cols = cs"
proof (rule nth_equalityI)
  show "length (map (pick cols cs) cols) = length cs" using assms by simp
next
  fix i assume "i < length (map (pick cols cs) cols)"
  then have i: "i < length cols" by simp
  have "map_of (zip cols cs) (cols ! i) = Some (cs ! i)"
    using assms i by (simp add: map_of_zip_nth)
  then show "map (pick cols cs) cols ! i = cs ! i" using i by (simp add: pick_def)
qed

lemma filter_eq_distinct:
  "distinct xs \<Longrightarrow> filter (\<lambda>b. b = a) xs = (if a \<in> set xs then [a] else [])"
  by (induction xs) auto

lemma concat_map_if: "concat (map (\<lambda>a. if P a then [a] else []) xs) = filter P xs"
  by (induction xs) auto

lemma rows_wf: "wf_frame df \<Longrightarrow> a \<in> set (rows df) \<Longrightarrow> length a = length (columns df)"
  by (auto simp: wf_frame_def rows_def list_all_iff)

lemma pd_merge_same_columns:
  assumes l: "wf_frame l" and r: "wf_frame r" and c: "columns l = columns r"
    and d: "distinct (rows r)" and nc: "\<not> list_ex (key_clash l r) (columns l)"
  shows "pd_merge l r =
     Inr \<lparr>columns = columns l, body = renumber (filter (\<lambda>a. a \<in> set (rows r)) (rows l))\<rparr>"
proof -
  let ?cols = "columns l"
  have dc: "distinct ?cols" and ne: "?cols \<noteq> []" using l by (simp_all add: wf_frame_def)
  have on: "filter (\<lambda>c. c \<in> set (columns r)) ?cols = ?cols" using c by simp
  have rest: "map snd (filter (\<lambda>p. fst p \<notin> set ?cols) (zip ?cols b)) = []" for b :: cells
  proof -
    have "filter (\<lambda>p. fst p \<notin> set ?cols) (zip ?cols b) = []"
      by (auto simp: filter_empty_conv dest: set_zip_leftD)
    then show ?thesis by simp
  qed
  have inner: "map (\<lambda>b. a @ map snd (filter (\<lambda>p. fst p \<notin> set ?cols) (zip ?cols b)))
          (filter (\<lambda>b. map (pick ?cols b) ?cols = map (pick ?cols a) ?cols) (rows r))
        = (if a \<in> set (rows r) then [a] else [])" if a: "a \<in> set (rows l)" for a
  proof -
    have la: "map (pick ?cols a) ?cols = a"
      using pick_all [OF dc] rows_wf [OF l a] by simp
    have "filter (\<lambda>b. map (pick ?cols b) ?cols = map (pick ?cols a) ?cols) (rows r)
        = filter (\<lambda>b. b = a) (rows r)"
    proof (rule filter_cong [OF refl])
      fix b assume "b \<in> set (rows r)"
      then have "map (pick ?cols b) ?cols = b"
        using pick_all [OF dc] rows_wf [OF r] c by simp
      then show "(map (pick ?cols b) ?cols = map (pick ?cols a) ?cols) = (b = a)"
        using la by simp
    qed
    then show ?thesis by (simp add: filter_eq_distinct [OF d] rest)
  qed
  have "concat (map (\<lambda>a. map (\<lambda>b. a @ map snd (filter (\<lambda>p. fst p \<notin> set ?cols) (zip ?cols b)))
          (filter (\<lambda>b. map (pick ?cols b) ?cols = map (pick ?cols a) ?cols) (rows r))) (rows l))
      = concat (map (\<lambda>a. if a \<in> set (rows r) then [a] else []) (rows l))"
    by (rule arg_cong [where f = concat], rule map_cong [OF refl]) (rule inner)
  also have "\<dots> = filter (\<lambda>a. a \<in> set (rows r)) (rows l)" by (rule concat_map_if)
  finally show ?thesis
    using dc ne nc by (simp add: pd_merge_def Let_def on c [symmetric])
qed


lemma map_snd_renumber [simp]: "map snd (renumber rs) = rs"
  by (simp add: renumber_def)

lemma renumber_Nil [simp]: "renumber rs = [] \<longleftrightarrow> rs = []"
  by (cases rs) (simp_all add: renumber_def upt_rec)

lemma filter_zip_snd:
  "length idx = length rs \<Longrightarrow> map snd (filter (\<lambda>q. P (snd q)) (zip idx rs)) = filter P rs"
  by (induction idx rs rule: list_induct2) auto

lemma filter_renumber: "map snd (filter (\<lambda>q. P (snd q)) (renumber rs)) = filter P rs"
  by (simp add: renumber_def filter_zip_snd)

lemma occurrences_renumber: "occurrences (renumber rs) c = count_list rs c"
proof -
  have "occurrences (renumber rs) c = length (map snd (filter (\<lambda>q. snd q = c) (renumber rs)))"
    by (simp add: occurrences_def)
  also have "\<dots> = length (filter (\<lambda>r. r = c) rs)"
    using filter_renumber [of "\<lambda>r. r = c" rs] by simp
  also have "\<dots> = count_list rs c" by (induction rs) auto
  finally show ?thesis .
qed

lemma rows_keep_False:
  assumes "c \<noteq> []"
  shows "rows (drop_duplicates_keep_False \<lparr>columns = c, body = renumber rs\<rparr>)
     = filter (\<lambda>r. count_list rs r = 1) rs"
proof (cases "rs = []")
  case True
  then show ?thesis by (simp add: drop_duplicates_keep_False_def rows_def)
next
  case False
  have "map snd (filter (\<lambda>q. count_list rs (snd q) = 1) (renumber rs))
      = filter (\<lambda>r. count_list rs r = 1) rs"
    by (rule filter_renumber)
  with False assms show ?thesis
    by (simp add: drop_duplicates_keep_False_def rows_def occurrences_renumber)
qed

lemma columns_keep_False [simp]: "columns (drop_duplicates_keep_False df) = columns df"
  by (simp add: drop_duplicates_keep_False_def)

lemma count_list_distinct: "distinct S \<Longrightarrow> count_list S r = (if r \<in> set S then 1 else 0)"
  by (induction S) auto

lemma once_append:
  assumes "distinct S" and "set S = set zs \<inter> T"
  shows "filter (\<lambda>r. count_list (zs @ S) r = 1) (zs @ S)
       = filter (\<lambda>r. count_list zs r = 1 \<and> r \<notin> T) zs"
proof -
  have cnt: "count_list (zs @ S) r = count_list zs r + (if r \<in> set zs \<and> r \<in> T then 1 else 0)"
    for r using assms by (simp add: count_list_distinct)
  have pos: "r \<in> set zs \<Longrightarrow> 0 < count_list zs r" for r
    using count_list_0_iff [of zs r] by auto
  have a: "filter (\<lambda>r. count_list (zs @ S) r = 1) zs
         = filter (\<lambda>r. count_list zs r = 1 \<and> r \<notin> T) zs"
    by (rule filter_cong [OF refl]) (use cnt pos in auto)
  have b: "filter (\<lambda>r. count_list (zs @ S) r = 1) S = []"
  proof -
    have "count_list (zs @ S) r \<noteq> 1" if "r \<in> set S" for r
      using that assms(2) cnt [of r] pos [of r] by auto
    then show ?thesis by (simp add: filter_empty_conv)
  qed
  show ?thesis using a b by simp
qed

lemma outliers_rows:
  assumes c: "columns t = columns sv" and ne: "columns t \<noteq> []" and d: "distinct (rows sv)"
    and i: "set (rows sv) = set (rows t) \<inter> T" and sv: "d ''same_values'' = Some (Table sv)"
  shows "\<exists>r. outliers t d = Inr r \<and> columns r = columns t \<and>
              rows r = filter (\<lambda>c. count_list (rows t) c = 1 \<and> c \<notin> T) (rows t)"
proof -
  let ?cat = "\<lparr>columns = columns t, body = renumber (rows t @ rows sv)\<rparr>"
  have o: "outliers t d = Inr (drop_duplicates_keep_False ?cat)"
    using c sv by (simp add: outliers_def getitem_def as_frame_def and_then_def pd_concat_def)
  have "rows (drop_duplicates_keep_False ?cat)
      = filter (\<lambda>r. count_list (rows t @ rows sv) r = 1) (rows t @ rows sv)"
    by (rule rows_keep_False [OF ne])
  also have "\<dots> = filter (\<lambda>c. count_list (rows t) c = 1 \<and> c \<notin> T) (rows t)"
    by (rule once_append [OF d i])
  finally show ?thesis using o by simp
qed

lemma not_key_chars: "not_key names i j = Inr k \<Longrightarrow> CHR ''n'' \<in> set k"
  by (auto simp: not_key_def and_then_Inr)

lemma dups_key_chars: "dups_key names i = Inr k \<Longrightarrow> CHR ''d'' \<in> set k"
  by (auto simp: dups_key_def and_then_Inr)

lemma fixed_keys_not_derived:
  "''same_values'' \<notin> not_keys names" "''same_values'' \<notin> dups_keys names"
  "''Same'' \<notin> not_keys names" "''Same'' \<notin> dups_keys names"
  "''highlight'' \<notin> not_keys names" "''highlight'' \<notin> dups_keys names"
  by (auto simp: not_keys_def dups_keys_def dest: not_key_chars dups_key_chars)

lemma not_key_strs [simp]:
  "not_key (PStr a # PStr b # rest) 0 (Suc 0) = Inr (a @ ''_not_'' @ b)"
  "not_key (PStr a # PStr b # rest) (Suc 0) 0 = Inr (b @ ''_not_'' @ a)"
  by (simp_all add: not_key_def item_def as_str_def and_then_def)

lemma dups_key_strs [simp]:
  "dups_key (PStr a # PStr b # rest) 0 = Inr (a @ ''_dups'')"
  "dups_key (PStr a # PStr b # rest) (Suc 0) = Inr (b @ ''_dups'')"
  by (simp_all add: dups_key_def item_def as_str_def and_then_def)

lemma dups_not_clash_same: "a @ ''_dups'' \<noteq> a @ ''_not_'' @ c"
  by simp

lemma dups_not_clash_other: "a @ ''_dups'' \<noteq> b @ ''_not_'' @ a"
proof
  assume e: "a @ ''_dups'' = b @ ''_not_'' @ a"
  then have "length (a @ ''_dups'') = length (b @ ''_not_'' @ a)" by simp
  then have "b = []" by simp
  with e have "count_list (a @ ''_dups'') CHR ''d'' = count_list (''_not_'' @ a) CHR ''d''"
    by simp
  then show False by simp
qed

subsection \<open>Frames of the blocks\<close>

lemma frame_on_dict: "frame_on K L s s' \<Longrightarrow> k \<notin> K \<Longrightarrow> dict_temp s' k = dict_temp s k"
  by (simp add: frame_on_def)

lemma frame_on_present: "frame_on K L s s' \<Longrightarrow> dict_temp s k \<noteq> None \<Longrightarrow> dict_temp s' k \<noteq> None"
  by (simp add: frame_on_def)

lemma frame_on_tabs: "frame_on K L s s' \<Longrightarrow> tab_x s' = tab_x s \<and> tab_y s' = tab_y s"
  by (simp add: frame_on_def)

lemma frame_on_stdout:
  "frame_on K L s s' \<Longrightarrow> m \<notin> L \<Longrightarrow> m \<in> set (stdout s') \<longleftrightarrow> m \<in> set (stdout s)"
  by (auto simp: frame_on_def)

lemma same_values_block_frame:
  "frame_on {''same_values''} {''Unable to identify same values''} s (same_values_block s)"
  unfolding same_values_block_def
  by (rule try_except_frame) (auto dest!: same_values_stmt_Inr intro: frame_on_setitem)

lemma outliers_block_frame:
  "frame_on (not_keys names) {''Unable to find outliers''} s (outliers_block names s)"
  unfolding outliers_block_def
  by (rule try_except_frame)
     (auto dest!: x_not_y_stmt_Inr y_not_x_stmt_Inr intro!: frame_on_setitem simp: not_keys_def)

lemma dups_block_frame:
  "frame_on (dups_keys names) {''Unable to find duplicates''} s (dups_block names d s)"
proof (cases d)
  case True
  have "frame_on (dups_keys names) {''Unable to find duplicates''} s
          (try_except [dups_stmt tab_x names 0, dups_stmt tab_y names 1]
             ''Unable to find duplicates'' s)"
    by (rule try_except_frame)
       (auto dest!: dups_stmt_Inr intro!: frame_on_setitem simp: dups_keys_def)
  with True show ?thesis by (simp add: dups_block_def)
next
  case False
  then show ?thesis by (simp add: dups_block_def frame_on_refl)
qed

lemma Same_block_frame:
  "frame_on {''Same''} {''Unable to determine whether the Dataframes are the same''} s
     (Same_block sm s)"
proof (cases sm)
  case True
  have "frame_on {''Same''} {''Unable to determine whether the Dataframes are the same''} s
          (try_except [Same_stmt]
             ''Unable to determine whether the Dataframes are the same'' s)"
    by (rule try_except_frame) (auto dest!: Same_stmt_Inr intro!: frame_on_setitem)
  with True show ?thesis by (simp add: Same_block_def)
next
  case False
  then show ?thesis by (simp add: Same_block_def frame_on_refl)
qed

lemma highlight_block_frame:
  "frame_on {''highlight''} {''Unable to calculate highlight''} s (highlight_block glob h s)"
proof (cases h)
  case True
  have "frame_on {''highlight''} {''Unable to calculate highlight''} s
          (try_except [highlight_stmt glob] ''Unable to calculate highlight'' s)"
    by (rule try_except_frame) (auto dest!: highlight_stmt_Inr intro!: frame_on_setitem)
  with True show ?thesis by (simp add: highlight_block_def)
next
  case False
  then show ?thesis by (simp add: highlight_block_def frame_on_refl)
qed

lemma print_same_values_Inr:
  "print_same_values s = Inr s' \<Longrightarrow> \<exists>l. s' = print l s \<and> l \<notin> block_messages"
  by (auto simp: print_same_values_def and_then_Inr block_messages_def)

lemma print_outliers_Inr:
  "print_outliers names i j s = Inr s' \<Longrightarrow> \<exists>l. s' = print l s \<and> l \<notin> block_messages"
  by (auto simp: print_outliers_def and_then_Inr block_messages_def)

lemma print_duplicates_Inr:
  "print_duplicates names i s = Inr s' \<Longrightarrow> \<exists>l. s' = print l s \<and> l \<notin> block_messages"
  by (auto simp: print_duplicates_def and_then_Inr block_messages_def)

lemma print_verdict_Inr:
  "print_verdict s = Inr s' \<Longrightarrow> \<exists>l. s' = print l s \<and> l \<notin> block_messages"
proof -
  assume a: "print_verdict s = Inr s'"
  then obtain e where e: "(case e of
          Verdict b \<Rightarrow>
            Inr (print (''DataFrames are '' @ (if b then ''the same'' else ''not the same'')) s)
        | Table t \<Rightarrow> Inl (ValueError ''The truth value of a DataFrame is ambiguous.'')) = Inr s'"
    by (auto simp: print_verdict_def and_then_Inr)
  show ?thesis
  proof (cases e)
    case (Table t)
    with e show ?thesis by simp
  next
    case (Verdict b)
    with e have "s' = print (''DataFrames are '' @ (if b then ''the same'' else ''not the same'')) s"
      by simp
    moreover have "''DataFrames are '' @ (if b then ''the same'' else ''not the same'')
        \<notin> block_messages"
      by (simp add: block_messages_def)
    ultimately show ?thesis by blast
  qed
qed

lemma commentary_frame: "frame_on {} (- block_messages) s (commentary names d sm c s)"
  unfolding commentary_def
proof (rule try_except_frame)
  show "''Unable to print commentary'' \<in> - block_messages"
    by (simp add: block_messages_def)
next
  fix f t t'
  assume f: "f \<in> set (if c
        then [print_same_values, print_outliers names 0 1, print_outliers names 1 0]
             @ (if d then [print_duplicates names 0, print_duplicates names 1] else [])
             @ (if sm then [print_verdict] else [])
        else [])"
    and r: "f t = Inr t'"
  then have "\<exists>l. t' = print l t \<and> l \<notin> block_messages"
    by (auto split: if_splits
          dest: print_same_values_Inr print_outliers_Inr print_duplicates_Inr print_verdict_Inr)
  then show "frame_on {} (- block_messages) t t'" by (auto intro: frame_on_print)
qed

lemma compare_Inr:
  "compare glob x y names dups same comment hl = Inr s \<longleftrightarrow>
   (\<exists>xf yf ns d sm c h.
      x = PFrame xf \<and> y = PFrame yf \<and> names = PList ns \<and> dups = PBool d \<and>
      same = PBool sm \<and> comment = PBool c \<and> equals_True hl = Inr h \<and>
      s = commentary ns d sm c (highlight_block glob h (Same_block sm (dups_block ns d
            (outliers_block ns (same_values_block (entry_state xf yf)))))))"
  by (auto simp: compare_def check_arguments_def and_then_Inr Let_def split: pyobj.splits)


subsection \<open>What the later blocks leave alone\<close>

lemma after_Same_block:
  "frame_on {''highlight''}
     (- {''Unable to identify same values'', ''Unable to find outliers'',
         ''Unable to find duplicates'',
         ''Unable to determine whether the Dataframes are the same''})
     s4 (commentary ns d sm c (highlight_block glob h s4))"
  by (rule frame_on_mono [OF frame_on_trans [OF highlight_block_frame commentary_frame]])
     (auto simp: block_messages_def)

lemma after_dups_block:
  "frame_on {''Same'', ''highlight''}
     (- {''Unable to identify same values'', ''Unable to find outliers'',
         ''Unable to find duplicates''})
     s3 (commentary ns d sm c (highlight_block glob h (Same_block sm s3)))"
  by (rule frame_on_mono [OF frame_on_trans [OF Same_block_frame after_Same_block]]) auto

lemma after_outliers_block:
  "frame_on (dups_keys ns \<union> {''Same'', ''highlight''})
     (- {''Unable to identify same values'', ''Unable to find outliers''})
     s2 (commentary ns d sm c (highlight_block glob h (Same_block sm (dups_block ns d s2))))"
  by (rule frame_on_mono [OF frame_on_trans [OF dups_block_frame after_dups_block]]) auto

lemma after_same_values_block:
  "frame_on (not_keys ns \<union> dups_keys ns \<union> {''Same'', ''highlight''})
     (- {''Unable to identify same values''})
     s1 (commentary ns d sm c (highlight_block glob h (Same_block sm (dups_block ns d
           (outliers_block ns s1)))))"
  by (rule frame_on_mono [OF frame_on_trans [OF outliers_block_frame after_outliers_block]]) auto

lemma whole_body_frame:
  "frame_on UNIV UNIV s0 (commentary ns d sm c (highlight_block glob h (Same_block sm
     (dups_block ns d (outliers_block ns (same_values_block s0))))))"
  by (rule frame_on_mono [OF frame_on_trans [OF same_values_block_frame after_same_values_block]])
     auto

lemma same_values_block_entry:
  "same_values_block (entry_state xf yf) =
     (case pd_merge (drop_duplicates xf) (drop_duplicates yf) of
        Inl e \<Rightarrow> print ''Unable to identify same values'' (entry_state xf yf)
      | Inr m \<Rightarrow> setitem ''same_values'' (Table m) (entry_state xf yf))"
  by (simp add: same_values_block_def same_values_stmt_def and_then_def entry_state_def
        split: sum.splits)

lemma s1_dict:
  "dict_temp (same_values_block (entry_state xf yf)) k =
     (case pd_merge (drop_duplicates xf) (drop_duplicates yf) of
        Inl e \<Rightarrow> None | Inr m \<Rightarrow> if k = ''same_values'' then Some (Table m) else None)"
  unfolding same_values_block_entry
  by (simp add: setitem_def print_def entry_state_def split: sum.splits)

lemma s1_stdout:
  "stdout (same_values_block (entry_state xf yf)) =
     (case pd_merge (drop_duplicates xf) (drop_duplicates yf) of
        Inl e \<Rightarrow> [''Unable to identify same values''] | Inr m \<Rightarrow> [])"
  unfolding same_values_block_entry
  by (simp add: setitem_def print_def entry_state_def split: sum.splits)

lemma s1_tabs:
  "tab_x (same_values_block (entry_state xf yf)) = xf"
  "tab_y (same_values_block (entry_state xf yf)) = yf"
  unfolding same_values_block_entry
  by (simp_all add: setitem_def print_def entry_state_def split: sum.splits)

lemma final_same_values:
  assumes "compare glob (PFrame xf) (PFrame yf) names dups same comment hl = Inr s"
  shows "dict_temp s ''same_values'' =
           (case pd_merge (drop_duplicates xf) (drop_duplicates yf) of
              Inl e \<Rightarrow> None | Inr m \<Rightarrow> Some (Table m))"
    and "''Unable to identify same values'' \<in> set (stdout s) \<longleftrightarrow>
           isl (pd_merge (drop_duplicates xf) (drop_duplicates yf))"
proof -
  from assms obtain ns d sm c h where
    s: "s = commentary ns d sm c (highlight_block glob h (Same_block sm (dups_block ns d
            (outliers_block ns (same_values_block (entry_state xf yf))))))"
    unfolding compare_Inr by auto
  let ?s1 = "same_values_block (entry_state xf yf)"
  have f: "frame_on (not_keys ns \<union> dups_keys ns \<union> {''Same'', ''highlight''})
     (- {''Unable to identify same values''}) ?s1 s"
    unfolding s by (rule after_same_values_block)
  have k: "''same_values'' \<notin> not_keys ns \<union> dups_keys ns \<union> {''Same'', ''highlight''}"
    using fixed_keys_not_derived(1,2) [of ns] by simp
  have "dict_temp s ''same_values'' = dict_temp ?s1 ''same_values''"
    by (rule frame_on_dict [OF f k])
  then show "dict_temp s ''same_values'' =
           (case pd_merge (drop_duplicates xf) (drop_duplicates yf) of
              Inl e \<Rightarrow> None | Inr m \<Rightarrow> Some (Table m))"
    by (simp add: s1_dict split: sum.splits)
  have "''Unable to identify same values'' \<in> set (stdout s) \<longleftrightarrow>
        ''Unable to identify same values'' \<in> set (stdout ?s1)"
    by (rule frame_on_stdout [OF f]) simp
  then show "''Unable to identify same values'' \<in> set (stdout s) \<longleftrightarrow>
           isl (pd_merge (drop_duplicates xf) (drop_duplicates yf))"
    by (cases "pd_merge (drop_duplicates xf) (drop_duplicates yf)") (simp_all add: s1_stdout)
qed

lemma compare_typed:
  "compare glob (PFrame xf) (PFrame yf) (PList ns) (PBool d) (PBool sm) (PBool c) (PBool h) =
     Inr (commentary ns d sm c (highlight_block glob h (Same_block sm (dups_block ns d
            (outliers_block ns (same_values_block (entry_state xf yf)))))))"
  by (simp add: compare_def check_arguments_def equals_True_def and_then_def)


lemma pd_merge_columns:
  "pd_merge l r = Inr m \<Longrightarrow>
   columns m = columns l @ filter (\<lambda>c. c \<notin> set (columns l)) (columns r)"
  by (auto simp: pd_merge_def Let_def split: if_splits intro: filter_cong)

subsection \<open>What the earlier blocks have done\<close>

lemma entry_frame:
  assumes "frame_on K L (entry_state xf yf) t"
  shows "tab_x t = xf" and "tab_y t = yf"
    and "k \<notin> K \<Longrightarrow> dict_temp t k = None"
    and "m \<notin> L \<Longrightarrow> m \<notin> set (stdout t)"
  using assms by (auto simp: frame_on_def entry_state_def)

lemma before_dups_block:
  "frame_on ({''same_values''} \<union> not_keys ns)
     {''Unable to identify same values'', ''Unable to find outliers''}
     s0 (outliers_block ns (same_values_block s0))"
  by (rule frame_on_mono [OF frame_on_trans [OF same_values_block_frame outliers_block_frame]])
     auto

lemma before_Same_block:
  "frame_on ({''same_values''} \<union> not_keys ns \<union> dups_keys ns)
     {''Unable to identify same values'', ''Unable to find outliers'',
      ''Unable to find duplicates''}
     s0 (dups_block ns d (outliers_block ns (same_values_block s0)))"
  by (rule frame_on_mono [OF frame_on_trans [OF before_dups_block dups_block_frame]]) auto

lemma before_highlight_block:
  "frame_on ({''same_values''} \<union> not_keys ns \<union> dups_keys ns \<union> {''Same''})
     {''Unable to identify same values'', ''Unable to find outliers'',
      ''Unable to find duplicates'',
      ''Unable to determine whether the Dataframes are the same''}
     s0 (Same_block sm (dups_block ns d (outliers_block ns (same_values_block s0))))"
  by (rule frame_on_mono [OF frame_on_trans [OF before_Same_block Same_block_frame]]) auto

subsection \<open>What each block does\<close>

lemma outliers_cong:
  "d ''same_values'' = d' ''same_values'' \<Longrightarrow> outliers t d = outliers t d'"
  by (simp add: outliers_def getitem_def)


lemma outliers_block_strs:
  assumes "outliers (tab_x s) (dict_temp s) = Inr ox"
    and "outliers (tab_y s) (dict_temp s) = Inr oy"
  shows "outliers_block (PStr a # PStr b # rest) s =
           setitem (b @ ''_not_'' @ a) (Table oy) (setitem (a @ ''_not_'' @ b) (Table ox) s)"
proof -
  let ?s' = "setitem (a @ ''_not_'' @ b) (Table ox) s"
  have x: "x_not_y_stmt (PStr a # PStr b # rest) s = Inr ?s'"
    using assms(1) by (simp add: x_not_y_stmt_def and_then_def)
  have "a @ ''_not_'' @ b \<noteq> ''same_values''"
  proof
    assume e: "a @ ''_not_'' @ b = ''same_values''"
    have "CHR ''n'' \<in> set (a @ ''_not_'' @ b)" by simp
    then have "CHR ''n'' \<in> set ''same_values''" unfolding e .
    then show False by simp
  qed
  then have "dict_temp ?s' ''same_values'' = dict_temp s ''same_values''"
    by (simp add: setitem_def)
  then have "outliers (tab_y s) (dict_temp ?s') = outliers (tab_y s) (dict_temp s)"
    by (rule outliers_cong)
  then have "outliers (tab_y ?s') (dict_temp ?s') = outliers (tab_y s) (dict_temp s)"
    by (simp add: setitem_def)
  then have y: "y_not_x_stmt (PStr a # PStr b # rest) ?s' =
      Inr (setitem (b @ ''_not_'' @ a) (Table oy) ?s')"
    using assms(2) by (simp add: y_not_x_stmt_def and_then_def)
  show ?thesis using x y by (simp add: outliers_block_def)
qed

lemma length_duplicated_acc [simp]: "length (duplicated_acc seen rs) = length rs"
  by (induction rs arbitrary: seen) auto

lemma getitem_mask_duplicated:
  "columns t \<noteq> [] \<Longrightarrow> \<exists>r. getitem_mask t (duplicated t) = Inr r"
  by (simp add: getitem_mask_def duplicated_def rows_def)

lemma dups_block_strs:
  assumes "columns (tab_x s) \<noteq> []" and "columns (tab_y s) \<noteq> []"
  shows "\<exists>dx dy. dups_block (PStr a # PStr b # rest) True s =
           setitem (b @ ''_dups'') (Table dy) (setitem (a @ ''_dups'') (Table dx) s)"
proof -
  from getitem_mask_duplicated [OF assms(1)] obtain dx
    where dx: "getitem_mask (tab_x s) (duplicated (tab_x s)) = Inr dx" by blast
  from getitem_mask_duplicated [OF assms(2)] obtain dy
    where dy: "getitem_mask (tab_y s) (duplicated (tab_y s)) = Inr dy" by blast
  let ?s' = "setitem (a @ ''_dups'') (Table dx) s"
  have x: "dups_stmt tab_x (PStr a # PStr b # rest) 0 s = Inr ?s'"
    using dx by (simp add: dups_stmt_def and_then_def)
  have "tab_y ?s' = tab_y s" by (simp add: setitem_def)
  then have y: "dups_stmt tab_y (PStr a # PStr b # rest) 1 ?s' =
      Inr (setitem (b @ ''_dups'') (Table dy) ?s')"
    using dy by (simp add: dups_stmt_def and_then_def)
  have "dups_block (PStr a # PStr b # rest) True s =
      setitem (b @ ''_dups'') (Table dy) (setitem (a @ ''_dups'') (Table dx) s)"
    using x y by (simp add: dups_block_def)
  then show ?thesis by blast
qed

lemma Same_block_True:
  "Same_block True s =
     (case dict_temp s ''same_values'' of
        Some (Table sv) \<Rightarrow>
          setitem ''Same''
            (Verdict (shape (tab_x s) = shape (tab_y s) \<and> shape (tab_x s) = shape sv)) s
      | _ \<Rightarrow> print ''Unable to determine whether the Dataframes are the same'' s)"
  by (simp add: Same_block_def Same_stmt_def getitem_def as_frame_def and_then_def
        split: option.splits entry.splits)


lemma highlight_block_my_python:
  "highlight_block my_python_globals True s = print ''Unable to calculate highlight'' s"
  by (simp add: highlight_block_def highlight_stmt_def load_global_def my_python_globals_def
        and_then_def)

subsection \<open>The join as the list of the matching pairs of rows\<close>

lemma set_rows_drop_duplicates_all: "set (rows (drop_duplicates df)) = set (rows df)"
  by (cases "columns df = []") (simp_all add: set_rows_drop_duplicates, simp add: drop_duplicates_def)

lemma column_cells_drop_duplicates:
  "set (column_cells (drop_duplicates df) c) = set (column_cells df c)"
  by (simp add: column_cells_def set_rows_drop_duplicates_all)

lemma numeric_column_set:
  "set vs = set ws \<Longrightarrow> numeric_column vs = numeric_column ws"
  by (auto simp: numeric_column_def list_ex_iff)

lemma string_column_set:
  "set vs = set ws \<Longrightarrow> string_column vs = string_column ws"
  by (simp add: string_column_def list_ex_iff)

lemma key_clash_drop_duplicates:
  "key_clash (drop_duplicates l) (drop_duplicates r) c = key_clash l r c"
  unfolding key_clash_def
  using numeric_column_set [OF column_cells_drop_duplicates [of l c]]
        numeric_column_set [OF column_cells_drop_duplicates [of r c]]
        string_column_set [OF column_cells_drop_duplicates [of l c]]
        string_column_set [OF column_cells_drop_duplicates [of r c]]
  by simp

lemma shared_right:
  "filter (\<lambda>c. c \<in> set (filter (\<lambda>c. c \<in> set (columns r)) (columns l))) (columns r) =
   filter (\<lambda>c. c \<in> set (columns l)) (columns r)"
  by (rule filter_cong) auto

lemma only_right:
  "filter (\<lambda>c. c \<notin> set (filter (\<lambda>c. c \<in> set (columns r)) (columns l))) (columns r) =
   filter (\<lambda>c. c \<notin> set (columns l)) (columns r)"
  by (rule filter_cong) auto

lemma only_right_cells:
  "filter (\<lambda>p. fst p \<notin> set (filter (\<lambda>c. c \<in> set cr) cl)) (zip cr b) =
   filter (\<lambda>p. fst p \<notin> set cl) (zip cr b)"
  by (rule filter_cong) (auto dest: set_zip_leftD)

lemma map_eq_list_all:
  "(map f xs = map g xs) = list_all (\<lambda>x. f x = g x) xs"
  by (simp add: list_all_iff)

lemma map_fst_renumber [simp]: "map fst (renumber rs) = [0..<length rs]"
  by (simp add: renumber_def)

lemma length_renumber [simp]: "length (renumber rs) = length rs"
  by (simp add: renumber_def)

lemma pd_merge_join:
  "pd_merge l r =
     (if shared l r \<noteq> [] \<and> distinct (shared l r) \<and>
         distinct (filter (\<lambda>c. c \<in> set (columns l)) (columns r)) \<and>
         \<not> list_ex (key_clash l r) (shared l r)
      then Inr \<lparr>columns = columns l @ filter (\<lambda>c. c \<notin> set (columns l)) (columns r),
             body = renumber (concat (map (\<lambda>a.
               map (\<lambda>b. a @ map snd (filter (\<lambda>p. fst p \<notin> set (columns l)) (zip (columns r) b)))
                 (filter (\<lambda>b. list_all (\<lambda>c. pick (columns r) b c = pick (columns l) a c)
                            (shared l r)) (rows r))) (rows l)))\<rparr>
      else if shared l r \<noteq> [] \<and> distinct (shared l r) \<and>
         distinct (filter (\<lambda>c. c \<in> set (columns l)) (columns r))
      then Inl (ValueError ''You are trying to merge on columns of different dtypes'')
      else Inl MergeError)"
  unfolding shared_def pd_merge_def Let_def shared_right only_right only_right_cells
    map_eq_list_all
  by simp


lemma shared_drop_duplicates [simp]:
  "shared (drop_duplicates l) (drop_duplicates r) = shared l r"
  by (simp add: shared_def)

lemma merge_deduplicated:
  "pd_merge (drop_duplicates l) (drop_duplicates r) =
     (if shared l r \<noteq> [] \<and> distinct (shared l r) \<and>
         distinct (filter (\<lambda>c. c \<in> set (columns l)) (columns r)) \<and>
         \<not> list_ex (key_clash l r) (shared l r)
      then Inr \<lparr>columns = columns l @ filter (\<lambda>c. c \<notin> set (columns l)) (columns r),
             body = renumber (concat (map (\<lambda>a.
               map (\<lambda>b. a @ map snd (filter (\<lambda>p. fst p \<notin> set (columns l)) (zip (columns r) b)))
                 (filter (\<lambda>b. list_all (\<lambda>c. pick (columns r) b c = pick (columns l) a c)
                            (shared l r)) (rows (drop_duplicates r))))
               (rows (drop_duplicates l))))\<rparr>
      else if shared l r \<noteq> [] \<and> distinct (shared l r) \<and>
         distinct (filter (\<lambda>c. c \<in> set (columns l)) (columns r))
      then Inl (ValueError ''You are trying to merge on columns of different dtypes'')
      else Inl MergeError)"
  unfolding pd_merge_join [of "drop_duplicates l" "drop_duplicates r"]
  by (simp add: list_ex_iff key_clash_drop_duplicates)

subsection \<open>The outliers in the returned dictionary\<close>

lemma frame_on_printed:
  "frame_on K L s s' \<Longrightarrow> m \<in> set (stdout s) \<Longrightarrow> m \<in> set (stdout s')"
  by (auto simp: frame_on_def)

lemma not_key_not_same_values: "a @ ''_not_'' @ b \<noteq> ''same_values''"
proof
  assume e: "a @ ''_not_'' @ b = ''same_values''"
  have "CHR ''n'' \<in> set (a @ ''_not_'' @ b)" by simp
  then have "CHR ''n'' \<in> set ''same_values''" unfolding e .
  then show False by simp
qed

lemma outliers_setitem:
  "outliers t (dict_temp (setitem (a @ ''_not_'' @ b) v s)) = outliers t (dict_temp s)"
  using not_key_not_same_values [of a b] not_key_not_same_values [of a b, symmetric]
  by (intro outliers_cong) (simp add: setitem_def)

lemma outliers_block_cases:
  "outliers_block (PStr a # PStr b # rest) s =
     (case outliers (tab_x s) (dict_temp s) of
        Inl e \<Rightarrow> print ''Unable to find outliers'' s
      | Inr ox \<Rightarrow>
          (case outliers (tab_y s) (dict_temp s) of
             Inl e \<Rightarrow> print ''Unable to find outliers'' (setitem (a @ ''_not_'' @ b) (Table ox) s)
           | Inr oy \<Rightarrow>
               setitem (b @ ''_not_'' @ a) (Table oy) (setitem (a @ ''_not_'' @ b) (Table ox) s)))"
proof (cases "outliers (tab_x s) (dict_temp s)")
  case (Inl e)
  then show ?thesis by (simp add: outliers_block_def x_not_y_stmt_def and_then_def)
next
  case (Inr ox)
  let ?s' = "setitem (a @ ''_not_'' @ b) (Table ox) s"
  have x: "x_not_y_stmt (PStr a # PStr b # rest) s = Inr ?s'"
    using Inr by (simp add: x_not_y_stmt_def and_then_def)
  have t: "tab_y ?s' = tab_y s" by (simp add: setitem_def)
  have y: "y_not_x_stmt (PStr a # PStr b # rest) ?s' =
      (case outliers (tab_y s) (dict_temp s) of
         Inl e \<Rightarrow> Inl e | Inr oy \<Rightarrow> Inr (setitem (b @ ''_not_'' @ a) (Table oy) ?s'))"
    unfolding y_not_x_stmt_def t outliers_setitem
    by (simp add: and_then_def split: sum.splits)
  show ?thesis using Inr x y by (simp add: outliers_block_def split: sum.splits)
qed


lemma dups_keys_strs:
  "dups_keys (PStr a # PStr b # rest) = {a @ ''_dups'', b @ ''_dups''}"
  by (auto simp: dups_keys_def)

lemma not_keys_strs:
  "not_keys (PStr a # PStr b # rest) = {a @ ''_not_'' @ b, b @ ''_not_'' @ a}"
  by (auto simp: not_keys_def)

lemma not_key_not_later:
  "a @ ''_not_'' @ b \<notin> dups_keys (PStr a # PStr b # rest) \<union> {''Same'', ''highlight''}"
  "b @ ''_not_'' @ a \<notin> dups_keys (PStr a # PStr b # rest) \<union> {''Same'', ''highlight''}"
proof -
  have k: "a @ ''_not_'' @ b \<in> not_keys (PStr a # PStr b # rest)"
    "b @ ''_not_'' @ a \<in> not_keys (PStr a # PStr b # rest)"
    by (simp_all add: not_keys_strs)
  have f: "''Same'' \<notin> not_keys (PStr a # PStr b # rest)"
    "''highlight'' \<notin> not_keys (PStr a # PStr b # rest)"
    by (rule fixed_keys_not_derived)+
  from k f have n: "a @ ''_not_'' @ b \<noteq> ''Same''" "a @ ''_not_'' @ b \<noteq> ''highlight''"
    "b @ ''_not_'' @ a \<noteq> ''Same''" "b @ ''_not_'' @ a \<noteq> ''highlight''"
    by metis+
  have c: "a @ ''_not_'' @ b \<noteq> a @ ''_dups''" "a @ ''_not_'' @ b \<noteq> b @ ''_dups''"
    "b @ ''_not_'' @ a \<noteq> a @ ''_dups''" "b @ ''_not_'' @ a \<noteq> b @ ''_dups''"
    using dups_not_clash_same [of a b] dups_not_clash_other [of b a]
      dups_not_clash_other [of a b] dups_not_clash_same [of b a]
    by metis+
  show "a @ ''_not_'' @ b \<notin> dups_keys (PStr a # PStr b # rest) \<union> {''Same'', ''highlight''}"
    unfolding dups_keys_strs using n c by blast
  show "b @ ''_not_'' @ a \<notin> dups_keys (PStr a # PStr b # rest) \<union> {''Same'', ''highlight''}"
    unfolding dups_keys_strs using n c by blast
qed

lemma s1_not_key: "dict_temp (same_values_block (entry_state xf yf)) (a @ ''_not_'' @ b) = None"
  using not_key_not_same_values [of a b]
  by (simp add: s1_dict split: sum.splits)

lemma s1_not_printed:
  "''Unable to find outliers'' \<notin> set (stdout (same_values_block (entry_state xf yf)))"
  by (simp add: s1_stdout split: sum.splits)

lemma final_outliers_from_s1:
  assumes "compare glob (PFrame xf) (PFrame yf) (PList ns) dups same comment hl = Inr s"
  shows "outliers t (dict_temp s) =
         outliers t (dict_temp (same_values_block (entry_state xf yf)))"
  by (rule outliers_cong) (simp add: final_same_values(1) [OF assms] s1_dict split: sum.splits)

lemma final_outliers:
  assumes s: "compare glob (PFrame xf) (PFrame yf) (PList (PStr a # PStr b # rest))
                dups same comment hl = Inr s"
  shows "outliers xf (dict_temp s) = Inl e \<Longrightarrow>
           dict_temp s (a @ ''_not_'' @ b) = None \<and> dict_temp s (b @ ''_not_'' @ a) = None \<and>
           ''Unable to find outliers'' \<in> set (stdout s)"
    and "outliers xf (dict_temp s) = Inr ox \<Longrightarrow> outliers yf (dict_temp s) = Inl e \<Longrightarrow>
           dict_temp s (a @ ''_not_'' @ b) = Some (Table ox) \<and>
           (b @ ''_not_'' @ a \<noteq> a @ ''_not_'' @ b \<longrightarrow> dict_temp s (b @ ''_not_'' @ a) = None) \<and>
           ''Unable to find outliers'' \<in> set (stdout s)"
    and "outliers xf (dict_temp s) = Inr ox \<Longrightarrow> outliers yf (dict_temp s) = Inr oy \<Longrightarrow>
           dict_temp s (b @ ''_not_'' @ a) = Some (Table oy) \<and>
           (b @ ''_not_'' @ a \<noteq> a @ ''_not_'' @ b \<longrightarrow>
              dict_temp s (a @ ''_not_'' @ b) = Some (Table ox)) \<and>
           ''Unable to find outliers'' \<notin> set (stdout s)"
proof -
  let ?ns = "PStr a # PStr b # rest"
  let ?s1 = "same_values_block (entry_state xf yf)"
  let ?s2 = "outliers_block ?ns ?s1"
  from s obtain d sm c h where
    s': "s = commentary ?ns d sm c (highlight_block glob h (Same_block sm (dups_block ?ns d ?s2)))"
    unfolding compare_Inr by auto
  have f: "frame_on (dups_keys ?ns \<union> {''Same'', ''highlight''})
     (- {''Unable to identify same values'', ''Unable to find outliers''}) ?s2 s"
    unfolding s' by (rule after_outliers_block)
  have ka: "dict_temp s (a @ ''_not_'' @ b) = dict_temp ?s2 (a @ ''_not_'' @ b)"
    by (rule frame_on_dict [OF f not_key_not_later(1)])
  have kb: "dict_temp s (b @ ''_not_'' @ a) = dict_temp ?s2 (b @ ''_not_'' @ a)"
    by (rule frame_on_dict [OF f not_key_not_later(2)])
  have pr: "''Unable to find outliers'' \<in> set (stdout s) \<longleftrightarrow>
        ''Unable to find outliers'' \<in> set (stdout ?s2)"
    by (rule frame_on_stdout [OF f]) simp
  have ox: "outliers xf (dict_temp s) = outliers (tab_x ?s1) (dict_temp ?s1)"
    and oy: "outliers yf (dict_temp s) = outliers (tab_y ?s1) (dict_temp ?s1)"
    by (simp_all add: final_outliers_from_s1 [OF s] s1_tabs)
  note n = s1_not_key [of xf yf a b] s1_not_key [of xf yf b a] s1_not_printed [of xf yf]
  show "outliers xf (dict_temp s) = Inl e \<Longrightarrow>
           dict_temp s (a @ ''_not_'' @ b) = None \<and> dict_temp s (b @ ''_not_'' @ a) = None \<and>
           ''Unable to find outliers'' \<in> set (stdout s)"
    unfolding ka kb pr ox outliers_block_cases using n by (simp add: print_def)
  show "outliers xf (dict_temp s) = Inr ox \<Longrightarrow> outliers yf (dict_temp s) = Inl e \<Longrightarrow>
           dict_temp s (a @ ''_not_'' @ b) = Some (Table ox) \<and>
           (b @ ''_not_'' @ a \<noteq> a @ ''_not_'' @ b \<longrightarrow> dict_temp s (b @ ''_not_'' @ a) = None) \<and>
           ''Unable to find outliers'' \<in> set (stdout s)"
    unfolding ka kb pr ox oy outliers_block_cases using n by (simp add: print_def setitem_def)
  show "outliers xf (dict_temp s) = Inr ox \<Longrightarrow> outliers yf (dict_temp s) = Inr oy \<Longrightarrow>
           dict_temp s (b @ ''_not_'' @ a) = Some (Table oy) \<and>
           (b @ ''_not_'' @ a \<noteq> a @ ''_not_'' @ b \<longrightarrow>
              dict_temp s (a @ ''_not_'' @ b) = Some (Table ox)) \<and>
           ''Unable to find outliers'' \<notin> set (stdout s)"
    unfolding ka kb pr ox oy outliers_block_cases using n by (simp add: setitem_def)
qed


lemma outliers_Inr:
  "outliers t d = Inr r \<longleftrightarrow>
   (\<exists>sv c. d ''same_values'' = Some (Table sv) \<and> pd_concat t sv = Inr c \<and>
      r = drop_duplicates_keep_False c)"
  by (auto simp: outliers_def getitem_def as_frame_def and_then_Inr
        split: option.splits entry.splits)

lemma final_keys:
  assumes "compare glob (PFrame xf) (PFrame yf) (PList ns) dups same comment hl = Inr s"
    and "dict_temp s k \<noteq> None"
  shows "k \<in> {''same_values''} \<union> not_keys ns \<union> dups_keys ns \<union> {''Same'', ''highlight''}"
proof -
  from assms(1) obtain d sm c h where
    s: "s = commentary ns d sm c (highlight_block glob h (Same_block sm (dups_block ns d
            (outliers_block ns (same_values_block (entry_state xf yf))))))"
    unfolding compare_Inr by auto
  have "frame_on (({''same_values''} \<union> not_keys ns \<union> dups_keys ns \<union> {''Same''}) \<union> {''highlight''})
     ({''Unable to identify same values'', ''Unable to find outliers'',
      ''Unable to find duplicates'',
      ''Unable to determine whether the Dataframes are the same''} \<union>
      (- {''Unable to identify same values'', ''Unable to find outliers'',
         ''Unable to find duplicates'',
         ''Unable to determine whether the Dataframes are the same''}))
     (entry_state xf yf) s"
    unfolding s by (rule frame_on_trans [OF before_highlight_block after_Same_block])
  from entry_frame(3) [OF this, of k] assms(2) show ?thesis by auto
qed

subsection \<open>The verdict in the returned dictionary\<close>

lemma final_Same:
  assumes s: "compare glob (PFrame xf) (PFrame yf) (PList ns) dups (PBool sm) comment hl = Inr s"
  shows "dict_temp s ''Same'' =
           (if sm then
              (case pd_merge (drop_duplicates xf) (drop_duplicates yf) of
                 Inl e \<Rightarrow> None
               | Inr sv \<Rightarrow> Some (Verdict (shape xf = shape yf \<and> shape xf = shape sv)))
            else None)"
    and "''Unable to determine whether the Dataframes are the same'' \<in> set (stdout s) \<longleftrightarrow>
           sm \<and> isl (pd_merge (drop_duplicates xf) (drop_duplicates yf))"
proof -
  let ?s3 = "dups_block ns d (outliers_block ns (same_values_block (entry_state xf yf)))"
  let ?msg = "''Unable to determine whether the Dataframes are the same''"
  from s obtain d c h where
    s': "s = commentary ns d sm c (highlight_block glob h (Same_block sm
           (dups_block ns d (outliers_block ns (same_values_block (entry_state xf yf))))))"
    unfolding compare_Inr by auto
  let ?s3 = "dups_block ns d (outliers_block ns (same_values_block (entry_state xf yf)))"
  have b: "frame_on ({''same_values''} \<union> not_keys ns \<union> dups_keys ns)
     {''Unable to identify same values'', ''Unable to find outliers'',
      ''Unable to find duplicates''} (entry_state xf yf) ?s3"
    by (rule before_Same_block)
  have a: "frame_on {''highlight''}
     (- {''Unable to identify same values'', ''Unable to find outliers'',
         ''Unable to find duplicates'', ?msg}) (Same_block sm ?s3) s"
    unfolding s' by (rule after_Same_block)
  have a3: "frame_on {''Same'', ''highlight''}
     (- {''Unable to identify same values'', ''Unable to find outliers'',
         ''Unable to find duplicates''}) ?s3 s"
    unfolding s' by (rule after_dups_block)
  have tx: "tab_x ?s3 = xf" and ty: "tab_y ?s3 = yf" by (rule entry_frame [OF b])+
  have k3: "dict_temp ?s3 ''Same'' = None"
    using fixed_keys_not_derived(3,4) [of ns] by (intro entry_frame(3) [OF b]) simp
  have p3: "?msg \<notin> set (stdout ?s3)" by (rule entry_frame(4) [OF b]) simp
  have sv3: "dict_temp ?s3 ''same_values'' = dict_temp s ''same_values''"
    by (rule frame_on_dict [OF a3, symmetric]) simp
  have sv: "dict_temp ?s3 ''same_values'' =
      (case pd_merge (drop_duplicates xf) (drop_duplicates yf) of
              Inl e \<Rightarrow> None | Inr m \<Rightarrow> Some (Table m))"
    unfolding sv3 by (rule final_same_values(1) [OF s])
  have k: "dict_temp s ''Same'' = dict_temp (Same_block sm ?s3) ''Same''"
    by (rule frame_on_dict [OF a]) simp
  have p: "?msg \<in> set (stdout s) \<longleftrightarrow> ?msg \<in> set (stdout (Same_block sm ?s3))"
    by (rule frame_on_stdout [OF a]) simp
  show "dict_temp s ''Same'' =
           (if sm then
              (case pd_merge (drop_duplicates xf) (drop_duplicates yf) of
                 Inl e \<Rightarrow> None
               | Inr sv \<Rightarrow> Some (Verdict (shape xf = shape yf \<and> shape xf = shape sv)))
            else None)"
  proof (cases sm)
    case False
    then show ?thesis unfolding k using k3 by (simp add: Same_block_def)
  next
    case True
    show ?thesis
    proof (cases "pd_merge (drop_duplicates xf) (drop_duplicates yf)")
      case (Inl e)
      then show ?thesis unfolding k using True sv k3
        by (simp add: Same_block_True print_def)
    next
      case (Inr m)
      then show ?thesis unfolding k using True sv tx ty
        by (simp add: Same_block_True setitem_def)
    qed
  qed
  show "?msg \<in> set (stdout s) \<longleftrightarrow> sm \<and> isl (pd_merge (drop_duplicates xf) (drop_duplicates yf))"
  proof (cases sm)
    case False
    then show ?thesis unfolding p using p3 by (simp add: Same_block_def)
  next
    case True
    show ?thesis
    proof (cases "pd_merge (drop_duplicates xf) (drop_duplicates yf)")
      case (Inl e)
      then show ?thesis unfolding p using True sv
        by (simp add: Same_block_True print_def)
    next
      case (Inr m)
      then show ?thesis unfolding p using True sv p3
        by (simp add: Same_block_True setitem_def)
    qed
  qed
qed


subsection \<open>When the three shapes coincide\<close>

lemma length_rows [simp]: "length (rows df) = length (body df)"
  by (simp add: rows_def)

lemma length_rows_drop_duplicates:
  "columns df \<noteq> [] \<Longrightarrow> length (rows (drop_duplicates df)) = card (set (rows df))"
  using distinct_card [OF distinct_rows_drop_duplicates [of df]]
  by (simp add: set_rows_drop_duplicates)

lemma merge_deduplicated_Inr:
  assumes "pd_merge (drop_duplicates l) (drop_duplicates r) = Inr sv"
  shows "shared l r \<noteq> []" and "distinct (shared l r)"
    and "distinct (filter (\<lambda>c. c \<in> set (columns l)) (columns r))"
    and "columns sv = columns l @ filter (\<lambda>c. c \<notin> set (columns l)) (columns r)"
    and "rows sv = concat (map (\<lambda>a.
               map (\<lambda>b. a @ map snd (filter (\<lambda>p. fst p \<notin> set (columns l)) (zip (columns r) b)))
                 (filter (\<lambda>b. list_all (\<lambda>c. pick (columns r) b c = pick (columns l) a c)
                            (shared l r)) (rows (drop_duplicates r))))
               (rows (drop_duplicates l)))"
  using assms unfolding merge_deduplicated
  by (auto simp: rows_def [of "\<lparr>columns = u, body = v\<rparr>" for u v] split: if_splits)

lemma pick_map:
  assumes "distinct cols" and "c \<in> set cols"
  shows "pick cols (map f cols) c = f c"
proof -
  have "map_of (zip cols (map f cols)) c = Some (f c)"
    using assms by (simp add: map_of_zip_map)
  then show ?thesis by (simp add: pick_def)
qed

lemma matches_of_distinct:
  assumes "distinct (map f R)"
  shows "map (\<lambda>b. a) (filter (\<lambda>b. f b = a) R) = (if a \<in> f ` set R then [a] else [])"
  using assms by (induction R) (auto simp: filter_empty_conv)

lemma filter_all_length:
  "length (filter P xs) = length xs \<Longrightarrow> x \<in> set xs \<Longrightarrow> P x"
  by (metis filter_id_conv length_filter_less less_irrefl)


lemma same_shapes_same_rows:
  assumes rx: "list_all (\<lambda>a. length a = length (columns xf)) (rows xf)"
    and ry: "list_all (\<lambda>b. length b = length (columns yf)) (rows yf)"
    and m: "pd_merge (drop_duplicates xf) (drop_duplicates yf) = Inr sv"
    and sxy: "shape xf = shape yf" and sxs: "shape xf = shape sv"
  shows "mset (columns yf) = mset (columns xf)"
    and "distinct (columns xf)"
    and "mset (rows xf) = mset (map (\<lambda>b. map (pick (columns yf) b) (columns xf)) (rows yf))"
proof -
  let ?cx = "columns xf" and ?cy = "columns yf"
  note M = merge_deduplicated_Inr [OF m]
  from sxy have lc: "length ?cx = length ?cy" and lb: "length (body xf) = length (body yf)"
    by (simp_all add: shape_def)
  from sxs have lcs: "length (columns sv) = length ?cx"
    and lbs: "length (body sv) = length (body xf)"
    by (simp_all add: shape_def)
  from lcs M(4) have only: "filter (\<lambda>c. c \<notin> set ?cx) ?cy = []" by simp
  then have sub: "set ?cy \<subseteq> set ?cx" by (auto simp: filter_empty_conv)
  then have "filter (\<lambda>c. c \<in> set ?cx) ?cy = ?cy" by (auto simp: filter_id_conv)
  with M(3) have dy: "distinct ?cy" by simp
  have "card (set ?cy) = length ?cy" using dy by (rule distinct_card)
  moreover have "card (set ?cy) \<le> card (set ?cx)" by (rule card_mono [OF _ sub]) simp
  moreover have "card (set ?cx) \<le> length ?cx" by (rule card_length)
  ultimately have cc: "card (set ?cx) = length ?cx" and ce: "card (set ?cy) = card (set ?cx)"
    using lc by simp_all
  from cc have dx: "distinct ?cx" by (rule card_distinct)
  have se: "set ?cy = set ?cx" by (rule card_subset_eq [OF _ sub ce]) simp
  show "mset ?cy = mset ?cx" using dx dy se by (simp add: set_eq_iff_mset_eq_distinct)
  show "distinct ?cx" by (rule dx)
  have sh: "shared xf yf = ?cx" using se by (simp add: shared_def)
  have nx: "?cx \<noteq> []" using M(1) sh by simp
  have ny: "?cy \<noteq> []" using nx lc by auto
  let ?L = "rows (drop_duplicates xf)" and ?R = "rows (drop_duplicates yf)"
  let ?f = "\<lambda>b. map (pick ?cy b) ?cx"
  have sL: "set ?L = set (rows xf)" by (rule set_rows_drop_duplicates_all)
  have sR: "set ?R = set (rows yf)" by (rule set_rows_drop_duplicates_all)
  have la: "length a = length ?cx" if "a \<in> set (rows xf)" for a
    using rx that by (simp add: list_all_iff)
  have lbb: "length b = length ?cy" if "b \<in> set (rows yf)" for b
    using ry that by (simp add: list_all_iff)
  have inj: "inj_on ?f (set (rows yf))"
  proof (rule inj_on_inverseI)
    fix b assume b: "b \<in> set (rows yf)"
    have "map (pick ?cx (?f b)) ?cy = map (pick ?cy b) ?cy"
      using se by (intro map_cong [OF refl]) (simp add: pick_map [OF dx])
    also have "\<dots> = b" by (rule pick_all [OF dy lbb [OF b]])
    finally show "map (pick ?cx (?f b)) ?cy = b" .
  qed
  have dR: "distinct ?R" by (rule distinct_rows_drop_duplicates [OF ny])
  have dfR: "distinct (map ?f ?R)" using dR inj sR by (simp add: distinct_map)
  have rest: "map snd (filter (\<lambda>p. fst p \<notin> set ?cx) (zip ?cy b)) = []" for b :: cells
    using sub by (auto simp: filter_empty_conv dest: set_zip_leftD)
  have inner: "map (\<lambda>b. a @ map snd (filter (\<lambda>p. fst p \<notin> set ?cx) (zip ?cy b)))
                 (filter (\<lambda>b. list_all (\<lambda>c. pick ?cy b c = pick ?cx a c) (shared xf yf)) ?R)
        = (if a \<in> ?f ` set ?R then [a] else [])" if a: "a \<in> set ?L" for a
  proof -
    have pa: "map (pick ?cx a) ?cx = a" using pick_all [OF dx] la a sL by simp
    have "list_all (\<lambda>c. pick ?cy b c = pick ?cx a c) ?cx = (?f b = a)" for b
      using map_eq_list_all [of "pick ?cy b" ?cx "pick ?cx a"] pa by simp
    then show ?thesis unfolding sh rest by (simp add: matches_of_distinct [OF dfR])
  qed
  have "concat (map (\<lambda>a.
               map (\<lambda>b. a @ map snd (filter (\<lambda>p. fst p \<notin> set ?cx) (zip ?cy b)))
                 (filter (\<lambda>b. list_all (\<lambda>c. pick ?cy b c = pick ?cx a c) (shared xf yf)) ?R)) ?L)
      = concat (map (\<lambda>a. if a \<in> ?f ` set ?R then [a] else []) ?L)"
    by (rule arg_cong [where f = concat], rule map_cong [OF refl]) (rule inner)
  also have "\<dots> = filter (\<lambda>a. a \<in> ?f ` set ?R) ?L" by (rule concat_map_if)
  finally have rs: "rows sv = filter (\<lambda>a. a \<in> ?f ` set ?R) ?L" unfolding M(5) .
  have l1: "length (rows sv) = length (rows xf)" using lbs by simp
  have l2: "length ?L = card (set (rows xf))" by (rule length_rows_drop_duplicates [OF nx])
  have l3: "card (set (rows xf)) \<le> length (rows xf)" by (rule card_length)
  have l4: "length (rows sv) \<le> length ?L" unfolding rs by (rule length_filter_le)
  from l1 l2 l3 l4 have cx: "card (set (rows xf)) = length (rows xf)"
    and fl': "length (rows sv) = length ?L" by simp_all
  from fl' have fl: "length (filter (\<lambda>a. a \<in> ?f ` set ?R) ?L) = length ?L" unfolding rs .
  from cx have drx: "distinct (rows xf)" by (rule card_distinct)
  have subr: "set (rows xf) \<subseteq> ?f ` set (rows yf)"
  proof
    fix a assume "a \<in> set (rows xf)"
    then have "a \<in> set ?L" by (simp add: sL)
    from filter_all_length [OF fl this] show "a \<in> ?f ` set (rows yf)" by (simp add: sR)
  qed
  have "card (set (rows xf)) \<le> card (?f ` set (rows yf))" by (rule card_mono [OF _ subr]) simp
  moreover have "card (?f ` set (rows yf)) \<le> card (set (rows yf))" by (rule card_image_le) simp
  moreover have "card (set (rows yf)) \<le> length (rows yf)" by (rule card_length)
  ultimately have cy: "card (set (rows yf)) = length (rows yf)"
    and ci: "card (set (rows xf)) = card (?f ` set (rows yf))"
    using cx lb by simp_all
  from cy have dry: "distinct (rows yf)" by (rule card_distinct)
  have eq: "set (rows xf) = ?f ` set (rows yf)" by (rule card_subset_eq [OF _ subr ci]) simp
  have dm: "distinct (map ?f (rows yf))" using dry inj by (simp add: distinct_map)
  have eq': "set (rows xf) = set (map ?f (rows yf))" using eq by simp
  from set_eq_iff_mset_eq_distinct [OF drx dm] eq'
  show "mset (rows xf) = mset (map ?f (rows yf))" by blast
qed


lemma reorder_same_columns:
  assumes "distinct cols" and "list_all (\<lambda>b. length b = length cols) rs"
  shows "map (\<lambda>b. map (pick cols b) cols) rs = rs"
  using assms by (intro map_idI) (simp add: list_all_iff pick_all)

lemma Same_True_rows:
  assumes s: "compare glob (PFrame xf) (PFrame yf) (PList ns) dups (PBool True) comment hl = Inr s"
    and v: "dict_temp s ''Same'' = Some (Verdict True)"
    and rx: "list_all (\<lambda>a. length a = length (columns xf)) (rows xf)"
    and ry: "list_all (\<lambda>b. length b = length (columns yf)) (rows yf)"
  shows "mset (columns yf) = mset (columns xf)"
    and "mset (rows xf) = mset (map (\<lambda>b. map (pick (columns yf) b) (columns xf)) (rows yf))"
    and "columns yf = columns xf \<Longrightarrow> mset (rows xf) = mset (rows yf)"
proof -
  from final_Same(1) [OF s] v obtain sv where
    m: "pd_merge (drop_duplicates xf) (drop_duplicates yf) = Inr sv"
    and sh: "shape xf = shape yf" "shape xf = shape sv"
    by (auto split: sum.splits)
  note R = same_shapes_same_rows [OF rx ry m sh]
  show "mset (columns yf) = mset (columns xf)" by (rule R(1))
  show a: "mset (rows xf) = mset (map (\<lambda>b. map (pick (columns yf) b) (columns xf)) (rows yf))"
    by (rule R(3))
  show "mset (rows xf) = mset (rows yf)" if e: "columns yf = columns xf"
    using a reorder_same_columns [OF R(2), of "rows yf"] ry unfolding e by simp
qed

lemma Same_True_iff:
  assumes s: "compare glob (PFrame xf) (PFrame yf) (PList ns) dups (PBool True) comment hl = Inr s"
  shows "dict_temp s ''Same'' = Some (Verdict True) \<longleftrightarrow>
        (\<exists>sv. dict_temp s ''same_values'' = Some (Table sv) \<and>
           shape xf = shape yf \<and> shape xf = shape sv)"
  unfolding final_Same(1) [OF s] final_same_values(1) [OF s]
  by (cases "pd_merge (drop_duplicates xf) (drop_duplicates yf)") auto

subsection \<open>The outliers of tables with the same columns\<close>

lemma merge_Inr_no_clash:
  "pd_merge l r = Inr m \<Longrightarrow>
   \<not> list_ex (key_clash l r) (filter (\<lambda>c. c \<in> set (columns r)) (columns l))"
  by (auto simp: pd_merge_def Let_def split: if_splits)

lemma merge_same_columns:
  assumes x: "wf_frame xf" and y: "wf_frame yf" and c: "columns xf = columns yf"
    and m: "pd_merge (drop_duplicates xf) (drop_duplicates yf) = Inr sv"
  shows "columns sv = columns xf"
    and "rows sv = filter (\<lambda>a. a \<in> set (rows yf)) (rows (drop_duplicates xf))"
    and "distinct (rows sv)"
    and "set (rows sv) = set (rows xf) \<inter> set (rows yf)"
proof -
  have nx: "columns xf \<noteq> []" and ny: "columns yf \<noteq> []"
    using x y by (simp_all add: wf_frame_def)
  have nc: "\<not> list_ex (key_clash (drop_duplicates xf) (drop_duplicates yf))
              (columns (drop_duplicates xf))"
    using merge_Inr_no_clash [OF m] c by simp
  have "pd_merge (drop_duplicates xf) (drop_duplicates yf) =
      Inr \<lparr>columns = columns (drop_duplicates xf),
        body = renumber (filter (\<lambda>a. a \<in> set (rows (drop_duplicates yf)))
               (rows (drop_duplicates xf)))\<rparr>"
    by (rule pd_merge_same_columns [OF _ _ _ _ nc])
       (simp_all add: wf_drop_duplicates x y c distinct_rows_drop_duplicates ny)
  with m have sv: "sv = \<lparr>columns = columns xf,
        body = renumber (filter (\<lambda>a. a \<in> set (rows yf)) (rows (drop_duplicates xf)))\<rparr>"
    by (simp add: set_rows_drop_duplicates [OF ny])
  show "columns sv = columns xf" by (simp add: sv)
  show r: "rows sv = filter (\<lambda>a. a \<in> set (rows yf)) (rows (drop_duplicates xf))"
    by (simp add: sv rows_def [of "\<lparr>columns = u, body = v\<rparr>" for u v])
  show "distinct (rows sv)"
    unfolding r by (simp add: distinct_rows_drop_duplicates [OF nx])
  show "set (rows sv) = set (rows xf) \<inter> set (rows yf)"
    unfolding r by (auto simp: set_rows_drop_duplicates [OF nx])
qed

lemma count_list_filter:
  "count_list (filter P xs) r = (if P r then count_list xs r else 0)"
  by (induction xs) auto

lemma residual_of_filter:
  assumes f: "rows ot = filter (\<lambda>c. count_list (rows t) c = 1 \<and> c \<notin> T) (rows t)"
    and i: "set (rows sv) = set (rows t) \<inter> T"
  shows "set (rows ot) \<subseteq> set (rows t) - set (rows sv)"
    and "r \<in> set (rows t) \<Longrightarrow> r \<notin> set (rows sv) \<Longrightarrow> count_list (rows t) r = 1 \<Longrightarrow>
         count_list (rows ot) r = 1"
  unfolding f using i by (auto simp: count_list_filter)


lemma final_residuals:
  assumes s: "compare glob (PFrame xf) (PFrame yf) (PList (PStr a # PStr b # rest))
                dups same comment hl = Inr s"
    and x: "wf_frame xf" and y: "wf_frame yf" and c: "columns xf = columns yf"
    and sv: "dict_temp s ''same_values'' = Some (Table sv)"
  shows "set (rows sv) = set (rows xf) \<inter> set (rows yf)"
    and "\<exists>oy. dict_temp s (b @ ''_not_'' @ a) = Some (Table oy) \<and> columns oy = columns yf \<and>
           set (rows oy) \<subseteq> set (rows yf) - set (rows sv) \<and>
           (\<forall>r. r \<in> set (rows yf) \<and> r \<notin> set (rows sv) \<and> count_list (rows yf) r = 1 \<longrightarrow>
                count_list (rows oy) r = 1)"
    and "a @ ''_not_'' @ b \<noteq> b @ ''_not_'' @ a \<Longrightarrow>
         \<exists>ox. dict_temp s (a @ ''_not_'' @ b) = Some (Table ox) \<and> columns ox = columns xf \<and>
           set (rows ox) \<subseteq> set (rows xf) - set (rows sv) \<and>
           (\<forall>r. r \<in> set (rows xf) \<and> r \<notin> set (rows sv) \<and> count_list (rows xf) r = 1 \<longrightarrow>
                count_list (rows ox) r = 1)"
proof -
  have nx: "columns xf \<noteq> []" and ny: "columns yf \<noteq> []"
    using x y by (simp_all add: wf_frame_def)
  from final_same_values(1) [OF s] sv
  have m: "pd_merge (drop_duplicates xf) (drop_duplicates yf) = Inr sv"
    by (simp split: sum.splits)
  note M = merge_same_columns [OF x y c m]
  show i: "set (rows sv) = set (rows xf) \<inter> set (rows yf)" by (rule M(4))
  have iy: "set (rows sv) = set (rows yf) \<inter> set (rows xf)" using i by blast
  from outliers_rows [where t = xf and sv = sv and T = "set (rows yf)" and d = "dict_temp s",
      OF M(1) [symmetric] nx M(3) i sv] obtain ox where
    ox: "outliers xf (dict_temp s) = Inr ox" and cx: "columns ox = columns xf"
    and rx: "rows ox = filter (\<lambda>c. count_list (rows xf) c = 1 \<and> c \<notin> set (rows yf)) (rows xf)"
    by blast
  have cy': "columns yf = columns sv" using M(1) c by simp
  from outliers_rows [where t = yf and sv = sv and T = "set (rows xf)" and d = "dict_temp s",
      OF cy' ny M(3) iy sv] obtain oy where
    oy: "outliers yf (dict_temp s) = Inr oy" and cy: "columns oy = columns yf"
    and ry: "rows oy = filter (\<lambda>c. count_list (rows yf) c = 1 \<and> c \<notin> set (rows xf)) (rows yf)"
    by blast
  note F = final_outliers(3) [OF s ox oy]
  note Rx = residual_of_filter [OF rx i]
  note Ry = residual_of_filter [OF ry iy]
  from F have "dict_temp s (b @ ''_not_'' @ a) = Some (Table oy)" by simp
  with cy Ry show "\<exists>oy. dict_temp s (b @ ''_not_'' @ a) = Some (Table oy) \<and>
           columns oy = columns yf \<and>
           set (rows oy) \<subseteq> set (rows yf) - set (rows sv) \<and>
           (\<forall>r. r \<in> set (rows yf) \<and> r \<notin> set (rows sv) \<and> count_list (rows yf) r = 1 \<longrightarrow>
                count_list (rows oy) r = 1)"
    by (intro exI [of _ oy]) blast
  assume "a @ ''_not_'' @ b \<noteq> b @ ''_not_'' @ a"
  with F have "dict_temp s (a @ ''_not_'' @ b) = Some (Table ox)" by simp
  with cx Rx show "\<exists>ox. dict_temp s (a @ ''_not_'' @ b) = Some (Table ox) \<and>
           columns ox = columns xf \<and>
           set (rows ox) \<subseteq> set (rows xf) - set (rows sv) \<and>
           (\<forall>r. r \<in> set (rows xf) \<and> r \<notin> set (rows sv) \<and> count_list (rows xf) r = 1 \<longrightarrow>
                count_list (rows ox) r = 1)"
    by (intro exI [of _ ox]) blast
qed

subsection \<open>What a step leaves when it fails\<close>













section \<open>Running compare on the example tables\<close>

lemmas model_defs =
  compare_def check_arguments_def entry_state_def same_values_block_def outliers_block_def
  dups_block_def Same_block_def highlight_block_def and_then_def same_values_stmt_def
  x_not_y_stmt_def y_not_x_stmt_def outliers_def dups_stmt_def Same_stmt_def highlight_stmt_def
  commentary_def print_same_values_def print_outliers_def print_duplicates_def
  print_verdict_def count_of_def equals_True_def load_global_def my_python_globals_def
  getitem_def as_frame_def item_def as_str_def not_key_def dups_key_def setitem_def print_def
  pd_merge_def key_clash_def numeric_column_def string_column_def is_int_def is_str_def
  column_cells_def pd_concat_def drop_duplicates_def drop_duplicates_keep_False_def
  occurrences_def duplicated_def getitem_mask_def pick_def renumber_def rows_def shape_def

lemmas join_defs =
  shared_def key_clash_def numeric_column_def string_column_def is_int_def is_str_def
  column_cells_def rows_def drop_duplicates_def duplicated_def pick_def

lemmas example_defs =
  names_xy_def table_ab_def table_ac_def table_ba_def table_11_def table_1_def table_2_def
  table_id_v_def table_id_w_def table_k_w_def table_sid_w_def

text \<open>
  Claim C1 (the highlight table). With \<^verbatim>\<open>highlight = True\<close> and the tables
  A = [{id:1,v:"a"}, {id:2,v:"b"}], B = [{id:1,v:"a"}, {id:2,v:"c"}] the claim expects a
  \<^verbatim>\<open>'highlight'\<close> entry whose row is {id: "-", v: "b/c"}. Lines 197 and 198 read the name
  \<^verbatim>\<open>dict_comp\<close>, which neither compare nor the module binds (the dictionary in scope is
  \<^verbatim>\<open>dict_temp\<close>): the step raises, its message is printed, and the returned dictionary
  has no \<^verbatim>\<open>'highlight'\<close> entry, although both residual tables are there and aligned.
\<close>

theorem C1_highlight_entry_missing:
  "\<exists>s. compare my_python_globals (PFrame table_ab) (PFrame table_ac) names_xy
          (PBool False) (PBool False) (PBool False) (PBool True) = Inr s
     \<and> dict_temp s ''x_not_y'' =
         Some (Table \<lparr>columns = [''id'', ''v''], body = [(1, [Some (IntV 2), Some (StrV ''b'')])]\<rparr>)
     \<and> dict_temp s ''y_not_x'' =
         Some (Table \<lparr>columns = [''id'', ''v''], body = [(1, [Some (IntV 2), Some (StrV ''c'')])]\<rparr>)
     \<and> dict_temp s ''highlight'' = None
     \<and> stdout s = [''Unable to calculate highlight'']"
  by (simp add: model_defs example_defs Let_def)

text \<open>
  Claim C2 (same and onlyInFirst together give the first table without its duplicates).
  For x = [{x:1}, {x:1}] and y = [{x:2}] both \<^verbatim>\<open>'same_values'\<close> and \<^verbatim>\<open>'x_not_y'\<close> are
  empty, while x without its duplicates is [{x:1}]: a row that is repeated in x and absent
  from y is in neither table.
\<close>

theorem C2_repeated_row_lost:
  "\<exists>s. compare my_python_globals (PFrame table_11) (PFrame table_2) names_xy
          (PBool False) (PBool False) (PBool False) (PBool False) = Inr s
     \<and> dict_temp s ''same_values'' = Some (Table \<lparr>columns = [''x''], body = []\<rparr>)
     \<and> dict_temp s ''x_not_y'' = Some (Table \<lparr>columns = [''x''], body = []\<rparr>)
     \<and> rows (drop_duplicates table_11) = [[Some (IntV 1)]]"
  by (simp add: model_defs example_defs Let_def)

text \<open>
  Claim C3 (the residual of x holds the rows of x whose value is not in \<^verbatim>\<open>'same_values'\<close>,
  and a row that is twice in x and once in \<^verbatim>\<open>'same_values'\<close> leaves one residual row). The
  accounting fails: line 169 appends \<^verbatim>\<open>'same_values'\<close> to x and drops every row that then
  occurs more than once. For x = [{x:1}, {x:1}] and y = [{x:1}] the row is twice in x and once
  in \<^verbatim>\<open>'same_values'\<close>, and \<^verbatim>\<open>'x_not_y'\<close> is empty.
\<close>

theorem C3_repeated_row_in_same:
  "\<exists>s. compare my_python_globals (PFrame table_11) (PFrame table_1) names_xy
          (PBool False) (PBool False) (PBool False) (PBool False) = Inr s
     \<and> count_list (rows table_11) [Some (IntV 1)] = 2
     \<and> dict_temp s ''same_values'' = Some (Table table_1)
     \<and> count_list (rows table_1) [Some (IntV 1)] = 1
     \<and> dict_temp s ''x_not_y'' = Some (Table \<lparr>columns = [''x''], body = []\<rparr>)"
  by (simp add: model_defs example_defs Let_def)

text \<open>
  Claim C3, amended: for tables x and y with the same columns whose join went through
  (\<^verbatim>\<open>'same_values'\<close> is there; its rows are the rows found in both tables), the residual of
  x has the columns of x and holds only rows of x whose value is not in \<^verbatim>\<open>'same_values'\<close>;
  a row that occurs once in x and is not in \<^verbatim>\<open>'same_values'\<close> is in it exactly once; a row
  whose value is in \<^verbatim>\<open>'same_values'\<close> leaves no residual row, however often it occurs in x.
  The residual of y is symmetric. (With names whose two keys coincide only the residual of
  y is kept.)
\<close>

theorem C3_residual_rows:
  "\<exists>s. compare glob (PFrame xf) (PFrame yf) (PList (PStr a # PStr b # rest))
          (PBool d) (PBool sm) (PBool c) (PBool h) = Inr s \<and>
     (\<forall>sv. wf_frame xf \<and> wf_frame yf \<and> columns xf = columns yf \<and>
           dict_temp s ''same_values'' = Some (Table sv) \<longrightarrow>
        set (rows sv) = set (rows xf) \<inter> set (rows yf) \<and>
        (\<exists>oy. dict_temp s (b @ ''_not_'' @ a) = Some (Table oy) \<and> columns oy = columns yf \<and>
           set (rows oy) \<subseteq> set (rows yf) - set (rows sv) \<and>
           (\<forall>r. r \<in> set (rows yf) \<and> r \<notin> set (rows sv) \<and> count_list (rows yf) r = 1 \<longrightarrow>
                count_list (rows oy) r = 1)) \<and>
        (a @ ''_not_'' @ b \<noteq> b @ ''_not_'' @ a \<longrightarrow>
           (\<exists>ox. dict_temp s (a @ ''_not_'' @ b) = Some (Table ox) \<and> columns ox = columns xf \<and>
              set (rows ox) \<subseteq> set (rows xf) - set (rows sv) \<and>
              (\<forall>r. r \<in> set (rows xf) \<and> r \<notin> set (rows sv) \<and> count_list (rows xf) r = 1 \<longrightarrow>
                   count_list (rows ox) r = 1))))"
proof -
  obtain s where
    s: "compare glob (PFrame xf) (PFrame yf) (PList (PStr a # PStr b # rest))
          (PBool d) (PBool sm) (PBool c) (PBool h) = Inr s"
    by (simp add: compare_typed)
  note R = final_residuals [OF s]
  from s R show ?thesis by (intro exI [of _ s]) blast
qed


lemma run_ab_ac_same_values:
  "\<exists>s. compare my_python_globals (PFrame table_ab) (PFrame table_ac) names_xy
          (PBool False) (PBool False) (PBool False) (PBool False) = Inr s
     \<and> dict_temp s ''same_values'' = Some (Table table_id_v)"
  by (simp add: model_defs example_defs Let_def)

theorem C3_residual_rows_witness:
  "\<exists>s. compare my_python_globals (PFrame table_ab) (PFrame table_ac) names_xy
          (PBool False) (PBool False) (PBool False) (PBool False) = Inr s
     \<and> (\<exists>ox. dict_temp s ''x_not_y'' = Some (Table ox)
           \<and> count_list (rows ox) [Some (IntV 2), Some (StrV ''b'')] = 1
           \<and> [Some (IntV 1), Some (StrV ''a'')] \<notin> set (rows ox))
     \<and> (\<exists>oy. dict_temp s ''y_not_x'' = Some (Table oy)
           \<and> count_list (rows oy) [Some (IntV 2), Some (StrV ''c'')] = 1
           \<and> [Some (IntV 1), Some (StrV ''a'')] \<notin> set (rows oy))"
proof -
  let ?a = "[Some (IntV 1), Some (StrV ''a'')]"
  let ?b = "[Some (IntV 2), Some (StrV ''b'')]"
  let ?c = "[Some (IntV 2), Some (StrV ''c'')]"
  from run_ab_ac_same_values obtain s0 where
    s0: "compare my_python_globals (PFrame table_ab) (PFrame table_ac) names_xy
          (PBool False) (PBool False) (PBool False) (PBool False) = Inr s0"
    and sv0: "dict_temp s0 ''same_values'' = Some (Table table_id_v)" by blast
  from C3_residual_rows [of my_python_globals table_ab table_ac "''x''" "''y''" "[]"
        False False False False]
  obtain s where
    s: "compare my_python_globals (PFrame table_ab) (PFrame table_ac)
          (PList [PStr ''x'', PStr ''y''])
          (PBool False) (PBool False) (PBool False) (PBool False) = Inr s"
    and r: "\<forall>sv. wf_frame table_ab \<and> wf_frame table_ac \<and> columns table_ab = columns table_ac \<and>
           dict_temp s ''same_values'' = Some (Table sv) \<longrightarrow>
        set (rows sv) = set (rows table_ab) \<inter> set (rows table_ac) \<and>
        (\<exists>oy. dict_temp s (''y'' @ ''_not_'' @ ''x'') = Some (Table oy) \<and>
           columns oy = columns table_ac \<and>
           set (rows oy) \<subseteq> set (rows table_ac) - set (rows sv) \<and>
           (\<forall>r. r \<in> set (rows table_ac) \<and> r \<notin> set (rows sv) \<and>
                count_list (rows table_ac) r = 1 \<longrightarrow> count_list (rows oy) r = 1)) \<and>
        (''x'' @ ''_not_'' @ ''y'' \<noteq> ''y'' @ ''_not_'' @ ''x'' \<longrightarrow>
           (\<exists>ox. dict_temp s (''x'' @ ''_not_'' @ ''y'') = Some (Table ox) \<and>
              columns ox = columns table_ab \<and>
              set (rows ox) \<subseteq> set (rows table_ab) - set (rows sv) \<and>
              (\<forall>r. r \<in> set (rows table_ab) \<and> r \<notin> set (rows sv) \<and>
                   count_list (rows table_ab) r = 1 \<longrightarrow> count_list (rows ox) r = 1)))"
    by blast
  have "Inr s = (Inr s0 :: error + frame_state)"
    using s s0 unfolding names_xy_def by (rule trans [OF sym])
  then have e: "s = s0" by (rule Inr_inject)
  have h: "wf_frame table_ab \<and> wf_frame table_ac \<and> columns table_ab = columns table_ac \<and>
           dict_temp s ''same_values'' = Some (Table table_id_v)"
    using sv0 unfolding e by (simp add: wf_frame_def table_ab_def table_ac_def)
  have k: "''x'' @ ''_not_'' @ ''y'' \<noteq> ''y'' @ ''_not_'' @ ''x''" by simp
  from r h k obtain ox oy where
    oy: "dict_temp s (''y'' @ ''_not_'' @ ''x'') = Some (Table oy)"
    and suby: "set (rows oy) \<subseteq> set (rows table_ac) - set (rows table_id_v)"
    and cnty: "\<forall>r. r \<in> set (rows table_ac) \<and> r \<notin> set (rows table_id_v) \<and>
                count_list (rows table_ac) r = 1 \<longrightarrow> count_list (rows oy) r = 1"
    and ox: "dict_temp s (''x'' @ ''_not_'' @ ''y'') = Some (Table ox)"
    and subx: "set (rows ox) \<subseteq> set (rows table_ab) - set (rows table_id_v)"
    and cntx: "\<forall>r. r \<in> set (rows table_ab) \<and> r \<notin> set (rows table_id_v) \<and>
                count_list (rows table_ab) r = 1 \<longrightarrow> count_list (rows ox) r = 1"
    by blast
  have ina: "?a \<in> set (rows table_id_v)" by (simp add: rows_def table_id_v_def)
  have hb: "?b \<in> set (rows table_ab) \<and> ?b \<notin> set (rows table_id_v) \<and>
            count_list (rows table_ab) ?b = 1"
    by (simp add: rows_def table_ab_def table_id_v_def)
  have hc: "?c \<in> set (rows table_ac) \<and> ?c \<notin> set (rows table_id_v) \<and>
            count_list (rows table_ac) ?c = 1"
    by (simp add: rows_def table_ac_def table_id_v_def)
  from cntx hb have 1: "count_list (rows ox) ?b = 1" by blast
  from cnty hc have 2: "count_list (rows oy) ?c = 1" by blast
  from subx ina have 3: "?a \<notin> set (rows ox)" by blast
  from suby ina have 4: "?a \<notin> set (rows oy)" by blast
  have 5: "dict_temp s ''x_not_y'' = Some (Table ox)" using ox by simp
  have 6: "dict_temp s ''y_not_x'' = Some (Table oy)" using oy by simp
  have "compare my_python_globals (PFrame table_ab) (PFrame table_ac) names_xy
          (PBool False) (PBool False) (PBool False) (PBool False) = Inr s"
    unfolding names_xy_def by (rule s)
  with 1 2 3 4 5 6 show ?thesis by blast
qed

text \<open>
  Claim C4 (compare of a table with itself). For x = [{x:1}, {x:1}] compared with itself
  and \<^verbatim>\<open>same = True\<close>, the \<^verbatim>\<open>'Same'\<close> entry is \<open>False\<close>: \<^verbatim>\<open>'same_values'\<close> has one
  row and x has two, so the shapes differ.
\<close>

theorem C4_self_compare_not_Same:
  "\<exists>s. compare my_python_globals (PFrame table_11) (PFrame table_11) names_xy
          (PBool False) (PBool True) (PBool True) (PBool False) = Inr s
     \<and> dict_temp s ''same_values'' = Some (Table table_1)
     \<and> dict_temp s ''Same'' = Some (Verdict False)
     \<and> stdout s = [''same values: 1'', ''outliers in x: 0'', ''outliers in y: 0'',
                    ''DataFrames are not the same'']"
  by (simp add: model_defs example_defs Let_def str_nat.simps)

text \<open>
  Claim C5 (\<^verbatim>\<open>'Same'\<close> is true exactly when the shapes of x, y and \<^verbatim>\<open>'same_values'\<close>
  coincide, and so can be true for tables whose rows differ). The equivalence holds. The
  second half fails: the shape of \<^verbatim>\<open>'same_values'\<close> is part of the test, and
  \<^verbatim>\<open>'same_values'\<close> has as many rows as x only if every row of x is in y and none is repeated.
  For A = [{id:1,v:"a"}, {id:2,v:"b"}] and B = [{id:1,v:"a"}, {id:2,v:"c"}] the counts coincide,
  the rows differ and \<^verbatim>\<open>'Same'\<close> is \<open>False\<close>; and no two tables with the same columns
  and different multisets of rows get \<open>True\<close>.
\<close>

lemma run_ab_ac_Same:
  "\<exists>s. compare my_python_globals (PFrame table_ab) (PFrame table_ac) names_xy
          (PBool False) (PBool True) (PBool False) (PBool False) = Inr s
     \<and> dict_temp s ''Same'' = Some (Verdict False)"
  by (simp add: model_defs example_defs Let_def)

lemma rows_ab_ac: "mset (rows table_ab) \<noteq> mset (rows table_ac)"
proof
  assume "mset (rows table_ab) = mset (rows table_ac)"
  then have "set (rows table_ab) = set (rows table_ac)" by (rule mset_eq_setD)
  moreover have "[Some (IntV 2), Some (StrV ''b'')] \<in> set (rows table_ab)"
    by (simp add: table_ab_def rows_def)
  moreover have "[Some (IntV 2), Some (StrV ''b'')] \<notin> set (rows table_ac)"
    by (simp add: table_ac_def rows_def)
  ultimately show False by metis
qed

theorem C5_no_false_positive:
  "(\<exists>s. compare my_python_globals (PFrame table_ab) (PFrame table_ac) names_xy
          (PBool False) (PBool True) (PBool False) (PBool False) = Inr s
      \<and> shape table_ab = shape table_ac
      \<and> mset (rows table_ab) \<noteq> mset (rows table_ac)
      \<and> dict_temp s ''Same'' = Some (Verdict False))
   \<and> \<not> (\<exists>glob xf yf ns d c h s.
        list_all (\<lambda>a. length a = length (columns xf)) (rows xf) \<and>
        list_all (\<lambda>b. length b = length (columns yf)) (rows yf) \<and>
        columns yf = columns xf \<and>
        compare glob (PFrame xf) (PFrame yf) (PList ns) (PBool d) (PBool True) (PBool c) (PBool h)
          = Inr s \<and>
        dict_temp s ''Same'' = Some (Verdict True) \<and>
        mset (rows xf) \<noteq> mset (rows yf))"
proof (intro conjI notI)
  have "shape table_ab = shape table_ac" by (simp add: shape_def table_ab_def table_ac_def)
  with run_ab_ac_Same rows_ab_ac
  show "\<exists>s. compare my_python_globals (PFrame table_ab) (PFrame table_ac) names_xy
          (PBool False) (PBool True) (PBool False) (PBool False) = Inr s
      \<and> shape table_ab = shape table_ac
      \<and> mset (rows table_ab) \<noteq> mset (rows table_ac)
      \<and> dict_temp s ''Same'' = Some (Verdict False)" by blast
next
  assume "\<exists>glob xf yf ns d c h s.
        list_all (\<lambda>a. length a = length (columns xf)) (rows xf) \<and>
        list_all (\<lambda>b. length b = length (columns yf)) (rows yf) \<and>
        columns yf = columns xf \<and>
        compare glob (PFrame xf) (PFrame yf) (PList ns) (PBool d) (PBool True) (PBool c) (PBool h)
          = Inr s \<and>
        dict_temp s ''Same'' = Some (Verdict True) \<and>
        mset (rows xf) \<noteq> mset (rows yf)"
  then obtain glob xf yf ns d c h s where
    rx: "list_all (\<lambda>a. length a = length (columns xf)) (rows xf)"
    and ry: "list_all (\<lambda>b. length b = length (columns yf)) (rows yf)"
    and e: "columns yf = columns xf"
    and s: "compare glob (PFrame xf) (PFrame yf) (PList ns) (PBool d) (PBool True) (PBool c)
              (PBool h) = Inr s"
    and v: "dict_temp s ''Same'' = Some (Verdict True)"
    and n: "mset (rows xf) \<noteq> mset (rows yf)" by blast
  from Same_True_rows(3) [OF s v rx ry e] n show False by simp
qed

text \<open>
  Claim C5, amended: with \<^verbatim>\<open>same = True\<close>, \<^verbatim>\<open>'Same'\<close> is \<open>True\<close> if and only if
  \<^verbatim>\<open>'same_values'\<close> is there and the shapes of x, of y and of \<^verbatim>\<open>'same_values'\<close> are equal.
  Only shapes are compared, but the test reports no table as the same that is not: when it is
  \<open>True\<close>, the columns of y are those of x up to their order and, read in the column order
  of x, the rows of y are the rows of x up to their order; for tables with the same columns
  the multisets of rows are equal.
\<close>

theorem C5_Same_iff_shapes:
  "\<exists>s. compare glob (PFrame xf) (PFrame yf) (PList ns) (PBool d) (PBool True) (PBool c) (PBool h)
          = Inr s \<and>
     (dict_temp s ''Same'' = Some (Verdict True) \<longleftrightarrow>
        (\<exists>sv. dict_temp s ''same_values'' = Some (Table sv) \<and>
           shape xf = shape yf \<and> shape xf = shape sv)) \<and>
     (dict_temp s ''Same'' = Some (Verdict True) \<and>
      list_all (\<lambda>a. length a = length (columns xf)) (rows xf) \<and>
      list_all (\<lambda>b. length b = length (columns yf)) (rows yf) \<longrightarrow>
        mset (columns yf) = mset (columns xf) \<and>
        mset (rows xf) = mset (map (\<lambda>b. map (pick (columns yf) b) (columns xf)) (rows yf)) \<and>
        (columns yf = columns xf \<longrightarrow> mset (rows xf) = mset (rows yf)))"
proof -
  obtain s where
    s: "compare glob (PFrame xf) (PFrame yf) (PList ns) (PBool d) (PBool True) (PBool c) (PBool h)
          = Inr s"
    by (simp add: compare_typed)
  note i = Same_True_iff [OF s]
  note r = Same_True_rows [OF s]
  from s i r show ?thesis by (intro exI [of _ s]) blast
qed


lemma run_ab_ba:
  "\<exists>s. compare my_python_globals (PFrame table_ab) (PFrame table_ba) names_xy
          (PBool False) (PBool True) (PBool False) (PBool False) = Inr s
     \<and> dict_temp s ''same_values'' = Some (Table table_ab)"
  by (simp add: model_defs example_defs Let_def)

theorem C5_Same_iff_shapes_witness:
  "\<exists>s. compare my_python_globals (PFrame table_ab) (PFrame table_ba) names_xy
          (PBool False) (PBool True) (PBool False) (PBool False) = Inr s
     \<and> dict_temp s ''Same'' = Some (Verdict True)
     \<and> rows table_ab \<noteq> rows table_ba
     \<and> mset (rows table_ab) = mset (rows table_ba)"
proof -
  from run_ab_ba obtain s0 where
    s0: "compare my_python_globals (PFrame table_ab) (PFrame table_ba) names_xy
          (PBool False) (PBool True) (PBool False) (PBool False) = Inr s0"
    and sv0: "dict_temp s0 ''same_values'' = Some (Table table_ab)" by blast
  from C5_Same_iff_shapes [of my_python_globals table_ab table_ba "[PStr ''x'', PStr ''y'']"
        False False False]
  obtain s where
    s: "compare my_python_globals (PFrame table_ab) (PFrame table_ba)
          (PList [PStr ''x'', PStr ''y''])
          (PBool False) (PBool True) (PBool False) (PBool False) = Inr s"
    and i: "dict_temp s ''Same'' = Some (Verdict True) \<longleftrightarrow>
        (\<exists>sv. dict_temp s ''same_values'' = Some (Table sv) \<and>
           shape table_ab = shape table_ba \<and> shape table_ab = shape sv)"
    and r: "dict_temp s ''Same'' = Some (Verdict True) \<and>
      list_all (\<lambda>a. length a = length (columns table_ab)) (rows table_ab) \<and>
      list_all (\<lambda>b. length b = length (columns table_ba)) (rows table_ba) \<longrightarrow>
        mset (columns table_ba) = mset (columns table_ab) \<and>
        mset (rows table_ab) =
          mset (map (\<lambda>b. map (pick (columns table_ba) b) (columns table_ab)) (rows table_ba)) \<and>
        (columns table_ba = columns table_ab \<longrightarrow> mset (rows table_ab) = mset (rows table_ba))"
    by blast
  have "Inr s = (Inr s0 :: error + frame_state)"
    using s s0 unfolding names_xy_def by (rule trans [OF sym])
  then have e: "s = s0" by (rule Inr_inject)
  have sh: "shape table_ab = shape table_ba \<and> shape table_ab = shape table_ab"
    by (simp add: shape_def table_ab_def table_ba_def)
  from sv0 sh have "\<exists>sv. dict_temp s ''same_values'' = Some (Table sv) \<and>
           shape table_ab = shape table_ba \<and> shape table_ab = shape sv"
    unfolding e by blast
  with i have v: "dict_temp s ''Same'' = Some (Verdict True)" by (rule iffD2)
  have h: "list_all (\<lambda>a. length a = length (columns table_ab)) (rows table_ab) \<and>
      list_all (\<lambda>b. length b = length (columns table_ba)) (rows table_ba)"
    by (simp add: rows_def table_ab_def table_ba_def)
  have c: "columns table_ba = columns table_ab" by (simp add: table_ab_def table_ba_def)
  from r v h have "columns table_ba = columns table_ab \<longrightarrow>
      mset (rows table_ab) = mset (rows table_ba)" by blast
  from this c have m: "mset (rows table_ab) = mset (rows table_ba)" by (rule mp)
  have d: "rows table_ab \<noteq> rows table_ba" by (simp add: rows_def table_ab_def table_ba_def)
  have "compare my_python_globals (PFrame table_ab) (PFrame table_ba) names_xy
          (PBool False) (PBool True) (PBool False) (PBool False) = Inr s"
    unfolding names_xy_def by (rule s)
  with v d m show ?thesis by blast
qed






text \<open>
  Claim C7 (an argument of the wrong type raises ValueError at once). The checks of lines
  147 to 160 cover x, y, names, dups, same and comment, not highlight: with the string
  \<^verbatim>\<open>'yes'\<close> for highlight the call raises nothing, runs every step and returns its
  dictionary.
\<close>

theorem C7_highlight_not_checked:
  "\<exists>s. compare my_python_globals (PFrame table_ab) (PFrame table_ac) names_xy
          (PBool False) (PBool False) (PBool False) (PStr ''yes'') = Inr s
     \<and> dict_temp s ''same_values'' = Some (Table table_id_v)
     \<and> stdout s = []"
  by (simp add: model_defs example_defs Let_def)

text \<open>
  Claim C8 (tables whose columns differ give an empty \<^verbatim>\<open>'same_values'\<close>, and nothing is
  raised). The claim fails where it promises an empty table: \<^verbatim>\<open>pd.merge\<close> joins on the
  columns the two tables share, so for x with columns id, v and y with columns id, w, both
  holding id = 1, \<^verbatim>\<open>'same_values'\<close> has one row.
\<close>

lemma merge_id_v_id_w:
  "pd_merge (drop_duplicates table_id_v) (drop_duplicates table_id_w) =
     Inr \<lparr>columns = [''id'', ''v'', ''w''],
          body = [(0, [Some (IntV 1), Some (StrV ''a''), Some (StrV ''b'')])]\<rparr>"
  by (simp add: pd_merge_def key_clash_def numeric_column_def string_column_def is_int_def
        is_str_def column_cells_def drop_duplicates_def duplicated_def rows_def pick_def
        renumber_def table_id_v_def table_id_w_def Let_def)

lemma run_id_v_id_w:
  "\<exists>s. compare my_python_globals (PFrame table_id_v) (PFrame table_id_w) names_xy
          (PBool False) (PBool False) (PBool False) (PBool False) = Inr s
     \<and> dict_temp s ''same_values'' =
         Some (Table \<lparr>columns = [''id'', ''v'', ''w''],
                 body = [(0, [Some (IntV 1), Some (StrV ''a''), Some (StrV ''b'')])]\<rparr>)"
proof -
  obtain s where s: "compare my_python_globals (PFrame table_id_v) (PFrame table_id_w) names_xy
          (PBool False) (PBool False) (PBool False) (PBool False) = Inr s"
    by (simp add: compare_typed names_xy_def)
  from final_same_values(1) [OF s] have "dict_temp s ''same_values'' =
         Some (Table \<lparr>columns = [''id'', ''v'', ''w''],
                 body = [(0, [Some (IntV 1), Some (StrV ''a''), Some (StrV ''b'')])]\<rparr>)"
    by (simp add: merge_id_v_id_w)
  with s show ?thesis by blast
qed

theorem C8_same_values_not_empty:
  "set (columns table_id_v) \<noteq> set (columns table_id_w) \<and>
   (\<exists>s. compare my_python_globals (PFrame table_id_v) (PFrame table_id_w) names_xy
          (PBool False) (PBool False) (PBool False) (PBool False) = Inr s
     \<and> dict_temp s ''same_values'' =
         Some (Table \<lparr>columns = [''id'', ''v'', ''w''],
                 body = [(0, [Some (IntV 1), Some (StrV ''a''), Some (StrV ''b'')])]\<rparr>))"
proof
  have "''v'' \<in> set (columns table_id_v)" and "''v'' \<notin> set (columns table_id_w)"
    by (simp_all add: table_id_v_def table_id_w_def)
  then show "set (columns table_id_v) \<noteq> set (columns table_id_w)" by metis
qed (rule run_id_v_id_w)

text \<open>
  Claim C8, amended: for all tables, names and flags of the right types compare returns its
  dictionary and raises nothing, whatever the columns of the two tables. The join can fail
  inside its \<^verbatim>\<open>try\<close>: when the tables share no column, when a shared label is repeated in
  one of them, or when a shared column is numeric in one table and string-like in the other.
  Then the message is printed and \<^verbatim>\<open>'same_values'\<close> is absent (not an empty table). In
  every other case nothing is printed by that step and \<^verbatim>\<open>'same_values'\<close> is the inner join
  of the two deduplicated tables on the shared columns: its columns are those of x followed by
  those only y has, its index counts from 0, and it has one row for each pair of a row of
  deduplicated x and a row of deduplicated y that agree on every shared column (the row of x
  followed by the cells of y under the columns only y has), in the order of x, then of y.
  So it has rows as soon as such a pair exists.
\<close>

theorem C8_same_values_join_or_absent:
  "\<exists>s. compare glob (PFrame xf) (PFrame yf) (PList ns) (PBool d) (PBool sm) (PBool c) (PBool h)
          = Inr s \<and>
     (if shared xf yf \<noteq> [] \<and> distinct (shared xf yf) \<and>
         distinct (filter (\<lambda>c. c \<in> set (columns xf)) (columns yf)) \<and>
         \<not> list_ex (key_clash xf yf) (shared xf yf)
      then ''Unable to identify same values'' \<notin> set (stdout s) \<and>
        (\<exists>m. dict_temp s ''same_values'' = Some (Table m) \<and>
           columns m = columns xf @ filter (\<lambda>c. c \<notin> set (columns xf)) (columns yf) \<and>
           map fst (body m) = [0..<length (body m)] \<and>
           rows m = concat (map (\<lambda>a.
               map (\<lambda>b. a @ map snd (filter (\<lambda>p. fst p \<notin> set (columns xf)) (zip (columns yf) b)))
                 (filter (\<lambda>b. list_all (\<lambda>c. pick (columns yf) b c = pick (columns xf) a c)
                            (shared xf yf)) (rows (drop_duplicates yf))))
               (rows (drop_duplicates xf))))
      else dict_temp s ''same_values'' = None \<and>
        ''Unable to identify same values'' \<in> set (stdout s))"
proof -
  obtain s where
    s: "compare glob (PFrame xf) (PFrame yf) (PList ns) (PBool d) (PBool sm) (PBool c) (PBool h)
          = Inr s"
    by (simp add: compare_typed)
  note fin = final_same_values [OF s]
  show ?thesis
  proof (cases "shared xf yf \<noteq> [] \<and> distinct (shared xf yf) \<and>
         distinct (filter (\<lambda>c. c \<in> set (columns xf)) (columns yf)) \<and>
         \<not> list_ex (key_clash xf yf) (shared xf yf)")
    case True
    then have m: "pd_merge (drop_duplicates xf) (drop_duplicates yf) =
      Inr \<lparr>columns = columns xf @ filter (\<lambda>c. c \<notin> set (columns xf)) (columns yf),
             body = renumber (concat (map (\<lambda>a.
               map (\<lambda>b. a @ map snd (filter (\<lambda>p. fst p \<notin> set (columns xf)) (zip (columns yf) b)))
                 (filter (\<lambda>b. list_all (\<lambda>c. pick (columns yf) b c = pick (columns xf) a c)
                            (shared xf yf)) (rows (drop_duplicates yf))))
               (rows (drop_duplicates xf))))\<rparr>"
      unfolding merge_deduplicated by simp
    have "''Unable to identify same values'' \<notin> set (stdout s)"
      using fin(2) by (simp add: m)
    moreover have "dict_temp s ''same_values'' = Some (Table \<lparr>columns = columns xf @ filter (\<lambda>c. c \<notin> set (columns xf)) (columns yf),
             body = renumber (concat (map (\<lambda>a.
               map (\<lambda>b. a @ map snd (filter (\<lambda>p. fst p \<notin> set (columns xf)) (zip (columns yf) b)))
                 (filter (\<lambda>b. list_all (\<lambda>c. pick (columns yf) b c = pick (columns xf) a c)
                            (shared xf yf)) (rows (drop_duplicates yf))))
               (rows (drop_duplicates xf))))\<rparr>)"
      using fin(1) by (simp add: m)
    ultimately show ?thesis using s True
      by (simp add: rows_def [of "\<lparr>columns = u, body = v\<rparr>" for u v])
  next
    case False
    then have "isl (pd_merge (drop_duplicates xf) (drop_duplicates yf))"
      unfolding merge_deduplicated by (simp split: if_splits)
    then obtain e where e: "pd_merge (drop_duplicates xf) (drop_duplicates yf) = Inl e"
      by (cases "pd_merge (drop_duplicates xf) (drop_duplicates yf)") simp_all
    have "dict_temp s ''same_values'' = None \<and>
        ''Unable to identify same values'' \<in> set (stdout s)"
      using fin by (simp add: e)
    then show ?thesis using s False by simp
  qed
qed


theorem C8_same_values_join_or_absent_witness:
  "(\<exists>s. compare my_python_globals (PFrame table_id_v) (PFrame table_id_w) names_xy
          (PBool False) (PBool False) (PBool False) (PBool False) = Inr s
      \<and> ''Unable to identify same values'' \<notin> set (stdout s)
      \<and> (\<exists>m. dict_temp s ''same_values'' = Some (Table m)
           \<and> columns m = [''id'', ''v'', ''w'']
           \<and> map fst (body m) = [0..<length (body m)]
           \<and> rows m = [[Some (IntV 1), Some (StrV ''a''), Some (StrV ''b'')]]))
   \<and> (\<exists>s. compare my_python_globals (PFrame table_id_v) (PFrame table_k_w) names_xy
          (PBool False) (PBool False) (PBool False) (PBool False) = Inr s
      \<and> dict_temp s ''same_values'' = None
      \<and> ''Unable to identify same values'' \<in> set (stdout s))
   \<and> (\<exists>s. compare my_python_globals (PFrame table_id_v) (PFrame table_sid_w) names_xy
          (PBool False) (PBool False) (PBool False) (PBool False) = Inr s
      \<and> dict_temp s ''same_values'' = None
      \<and> ''Unable to identify same values'' \<in> set (stdout s))"
proof (intro conjI)
  show "\<exists>s. compare my_python_globals (PFrame table_id_v) (PFrame table_id_w) names_xy
          (PBool False) (PBool False) (PBool False) (PBool False) = Inr s
      \<and> ''Unable to identify same values'' \<notin> set (stdout s)
      \<and> (\<exists>m. dict_temp s ''same_values'' = Some (Table m)
           \<and> columns m = [''id'', ''v'', ''w'']
           \<and> map fst (body m) = [0..<length (body m)]
           \<and> rows m = [[Some (IntV 1), Some (StrV ''a''), Some (StrV ''b'')]])"
    using C8_same_values_join_or_absent [of my_python_globals table_id_v table_id_w
        "[PStr ''x'', PStr ''y'']" False False False False]
    by (simp add: names_xy_def join_defs table_id_v_def table_id_w_def)
  show "\<exists>s. compare my_python_globals (PFrame table_id_v) (PFrame table_k_w) names_xy
          (PBool False) (PBool False) (PBool False) (PBool False) = Inr s
      \<and> dict_temp s ''same_values'' = None
      \<and> ''Unable to identify same values'' \<in> set (stdout s)"
    using C8_same_values_join_or_absent [of my_python_globals table_id_v table_k_w
        "[PStr ''x'', PStr ''y'']" False False False False]
    by (simp add: names_xy_def join_defs table_id_v_def table_k_w_def)
  show "\<exists>s. compare my_python_globals (PFrame table_id_v) (PFrame table_sid_w) names_xy
          (PBool False) (PBool False) (PBool False) (PBool False) = Inr s
      \<and> dict_temp s ''same_values'' = None
      \<and> ''Unable to identify same values'' \<in> set (stdout s)"
    using C8_same_values_join_or_absent [of my_python_globals table_id_v table_sid_w
        "[PStr ''x'', PStr ''y'']" False False False False]
    by (simp add: names_xy_def join_defs table_id_v_def table_sid_w_def)
qed

text \<open>
  Claim C9 (compare never changes the tables the caller passed). Whenever compare returns,
  the tables \<open>x\<close> and \<open>y\<close> of the final state are the ones passed in: no statement
  of the body assigns to them or updates them in place (every pandas call used returns a new
  frame, and the only in-place update, \<^verbatim>\<open>df_t[i] = ...\<close>, is on a local frame).
\<close>

theorem C9_tables_unchanged:
  assumes "compare glob x y names dups same comment highlight = Inr s"
  shows "x = PFrame (tab_x s) \<and> y = PFrame (tab_y s)"
proof -
  from assms obtain xf yf ns d sm c h where x: "x = PFrame xf" and y: "y = PFrame yf"
    and s: "s = commentary ns d sm c (highlight_block glob h (Same_block sm (dups_block ns d
            (outliers_block ns (same_values_block (entry_state xf yf))))))"
    unfolding compare_Inr by auto
  have "frame_on UNIV UNIV (entry_state xf yf) s"
    unfolding s by (rule whole_body_frame)
  then have "tab_x s = xf \<and> tab_y s = yf"
    by (simp add: frame_on_def entry_state_def)
  with x y show ?thesis by simp
qed

lemma run_ab_ac:
  "\<exists>s. compare my_python_globals (PFrame table_ab) (PFrame table_ac) names_xy
          (PBool True) (PBool True) (PBool True) (PBool True) = Inr s"
  by (simp add: compare_typed names_xy_def)

theorem C9_tables_unchanged_witness:
  "\<exists>s. compare my_python_globals (PFrame table_ab) (PFrame table_ac) names_xy
          (PBool True) (PBool True) (PBool True) (PBool True) = Inr s
     \<and> tab_x s = table_ab \<and> tab_y s = table_ac"
proof -
  from run_ab_ac obtain s where
    s: "compare my_python_globals (PFrame table_ab) (PFrame table_ac) names_xy
          (PBool True) (PBool True) (PBool True) (PBool True) = Inr s" by blast
  from C9_tables_unchanged [OF s] have "tab_x s = table_ab \<and> tab_y s = table_ac" by simp
  with s show ?thesis by blast
qed

text \<open>
  Claim C10 (equal names leave one residual table). When the first two entries of
  \<^verbatim>\<open>names\<close> are the same string \<open>n\<close>, the keys \<^verbatim>\<open>names[0] + '_not_' + names[1]\<close> and
  \<^verbatim>\<open>names[1] + '_not_' + names[0]\<close> are one key. The returned dictionary has no entry
  beyond \<^verbatim>\<open>'same_values'\<close>, that key, \<^verbatim>\<open>n + '_dups'\<close>, \<^verbatim>\<open>'Same'\<close> and \<^verbatim>\<open>'highlight'\<close>;
  and when the outliers step went through (its message is not printed), both assignments
  ran and the key holds what line 171 computes for the second table: the concatenation of
  y with \<^verbatim>\<open>'same_values'\<close> without the rows that occur more than once.
\<close>

theorem C10_equal_names_one_residual:
  "\<exists>s. compare glob (PFrame xf) (PFrame yf) (PList (PStr n # PStr n # rest))
          (PBool d) (PBool sm) (PBool c) (PBool h) = Inr s \<and>
     not_key (PStr n # PStr n # rest) 0 1 = Inr (n @ ''_not_'' @ n) \<and>
     not_key (PStr n # PStr n # rest) 1 0 = Inr (n @ ''_not_'' @ n) \<and>
     (\<forall>k. dict_temp s k \<noteq> None \<longrightarrow>
        k \<in> {''same_values'', n @ ''_not_'' @ n, n @ ''_dups'', ''Same'', ''highlight''}) \<and>
     (''Unable to find outliers'' \<notin> set (stdout s) \<longrightarrow>
        (\<exists>sv cx cy. dict_temp s ''same_values'' = Some (Table sv) \<and>
           pd_concat xf sv = Inr cx \<and> pd_concat yf sv = Inr cy \<and>
           dict_temp s (n @ ''_not_'' @ n) = Some (Table (drop_duplicates_keep_False cy))))"
proof -
  let ?ns = "PStr n # PStr n # rest"
  obtain s where
    s: "compare glob (PFrame xf) (PFrame yf) (PList ?ns) (PBool d) (PBool sm) (PBool c) (PBool h)
          = Inr s"
    by (simp add: compare_typed)
  have keys: "k \<in> {''same_values'', n @ ''_not_'' @ n, n @ ''_dups'', ''Same'', ''highlight''}"
    if "dict_temp s k \<noteq> None" for k
    using final_keys [OF s that] by (auto simp: not_keys_strs dups_keys_strs)
  have res: "\<exists>sv cx cy. dict_temp s ''same_values'' = Some (Table sv) \<and>
           pd_concat xf sv = Inr cx \<and> pd_concat yf sv = Inr cy \<and>
           dict_temp s (n @ ''_not_'' @ n) = Some (Table (drop_duplicates_keep_False cy))"
    if np: "''Unable to find outliers'' \<notin> set (stdout s)"
  proof (cases "outliers xf (dict_temp s)")
    case (Inl e)
    from final_outliers(1) [OF s Inl] np show ?thesis by simp
  next
    case ox: (Inr ox)
    show ?thesis
    proof (cases "outliers yf (dict_temp s)")
      case (Inl e)
      from final_outliers(2) [OF s ox Inl] np show ?thesis by simp
    next
      case oy: (Inr oy)
      from final_outliers(3) [OF s ox oy]
      have k: "dict_temp s (n @ ''_not_'' @ n) = Some (Table oy)" by simp
      from ox obtain sv cx where sv: "dict_temp s ''same_values'' = Some (Table sv)"
        and cx: "pd_concat xf sv = Inr cx"
        unfolding outliers_Inr by blast
      from oy sv obtain cy where cy: "pd_concat yf sv = Inr cy"
        and r: "oy = drop_duplicates_keep_False cy"
        unfolding outliers_Inr by auto
      from sv cx cy k r show ?thesis by blast
    qed
  qed
  from s keys res show ?thesis by (intro exI [of _ s]) simp
qed


lemma run_df2_df2:
  "\<exists>s. compare my_python_globals (PFrame table_ab) (PFrame table_ac)
          (PList [PStr ''df2'', PStr ''df2''])
          (PBool False) (PBool False) (PBool False) (PBool False) = Inr s
     \<and> stdout s = [] \<and> dict_temp s ''same_values'' = Some (Table table_id_v)"
  by (simp add: model_defs example_defs Let_def)

lemma concat_ac_id_v:
  "pd_concat table_ac table_id_v = Inr cy \<Longrightarrow>
   drop_duplicates_keep_False cy =
     \<lparr>columns = [''id'', ''v''], body = [(1, [Some (IntV 2), Some (StrV ''c'')])]\<rparr>"
  by (auto simp: model_defs example_defs Let_def)

theorem C10_equal_names_one_residual_witness:
  "\<exists>s. compare my_python_globals (PFrame table_ab) (PFrame table_ac)
          (PList [PStr ''df2'', PStr ''df2''])
          (PBool False) (PBool False) (PBool False) (PBool False) = Inr s
     \<and> dict_temp s ''df2_not_df2'' =
         Some (Table \<lparr>columns = [''id'', ''v''], body = [(1, [Some (IntV 2), Some (StrV ''c'')])]\<rparr>)"
proof -
  from run_df2_df2 obtain s0 where
    s0: "compare my_python_globals (PFrame table_ab) (PFrame table_ac)
          (PList [PStr ''df2'', PStr ''df2''])
          (PBool False) (PBool False) (PBool False) (PBool False) = Inr s0"
    and out: "stdout s0 = []"
    and sv0: "dict_temp s0 ''same_values'' = Some (Table table_id_v)" by blast
  from C10_equal_names_one_residual [of my_python_globals table_ab table_ac "''df2''" "[]"
        False False False False]
  obtain s where
    s: "compare my_python_globals (PFrame table_ab) (PFrame table_ac)
          (PList [PStr ''df2'', PStr ''df2''])
          (PBool False) (PBool False) (PBool False) (PBool False) = Inr s"
    and i: "''Unable to find outliers'' \<notin> set (stdout s) \<longrightarrow>
        (\<exists>sv cx cy. dict_temp s ''same_values'' = Some (Table sv) \<and>
           pd_concat table_ab sv = Inr cx \<and> pd_concat table_ac sv = Inr cy \<and>
           dict_temp s (''df2'' @ ''_not_'' @ ''df2'') =
             Some (Table (drop_duplicates_keep_False cy)))"
    by blast
  have "Inr s = (Inr s0 :: error + frame_state)"
    using s s0 by (rule trans [OF sym])
  then have e: "s = s0" by (rule Inr_inject)
  have "''Unable to find outliers'' \<notin> set (stdout s)" unfolding e out by simp
  with i obtain sv cy where sv: "dict_temp s ''same_values'' = Some (Table sv)"
    and cy: "pd_concat table_ac sv = Inr cy"
    and k: "dict_temp s (''df2'' @ ''_not_'' @ ''df2'') =
             Some (Table (drop_duplicates_keep_False cy))" by blast
  from sv sv0 have "sv = table_id_v" unfolding e by simp
  with cy have "pd_concat table_ac table_id_v = Inr cy" by simp
  from concat_ac_id_v [OF this] k
  have "dict_temp s ''df2_not_df2'' =
         Some (Table \<lparr>columns = [''id'', ''v''], body = [(1, [Some (IntV 2), Some (StrV ''c'')])]\<rparr>)"
    by simp
  with s show ?thesis by blast
qed

end
